theory Spec2Isabelle
  imports Complex_Main
begin

section \<open>The measurement script of qkit's magnetoconductance package\<close>

text \<open>
  A shallow embedding of \<^verbatim>\<open>src/qkit/measure/magnetoconductance/measurement_script.py\<close>
  (class \<^verbatim>\<open>MeasurementScript\<close>). A Python number (int, float, bool where a number is
  expected) is the real number it stands for. Where the script builds its arrays of step
  and sweep values, the rounding of float64 arithmetic and the narrowing to numpy's
  \<^verbatim>\<open>float32\<close> are part of the model; the durations of ramps and the samples of the
  instrument are taken as they stand. Every exception the methods can raise is a value
  of \<open>error\<close>; a method that mutates \<^verbatim>\<open>self\<close> takes the state and returns the new one.
\<close>

subsection \<open>Python values, exceptions and log records\<close>

text \<open>The values a caller can pass as keyword arguments. Dictionaries have string keys
  (keyword arguments always do) and keep their insertion order.\<close>

datatype pyval =
    VNone
  | VBool bool
  | VInt int
  | VFloat real
  | VStr string
  | VList "pyval list"
  | VDict "(string \<times> pyval) list"

type_synonym kwargs = "(string \<times> pyval) list"

datatype error =
  KeyError | TypeError | ValueError | AttributeError | ZeroDivisionError | IndexError

datatype level = INFO | WARNING | ERROR

text \<open>One constructor per call of \<^verbatim>\<open>log.info\<close>, \<^verbatim>\<open>log.warning\<close> and \<^verbatim>\<open>log.error\<close>
  in the source; the arguments are the values the message interpolates.\<close>

datatype msg =
    No_var string pyval
  | Bootload_not_bool
  | Hard_config_changed
  | Soft_config_changed
  | No_valid_sweep_value pyval string
  | No_valid_step_value pyval string
  | Must_be_number string
  | Rate_not_valid pyval real
  | No_valid_mode pyval string
  | Not_defined_in_vars3 string string string
  | Not_defined_in_vars2 string string
  | Not_defined string
  | No_step_values
  | No_sweep_values
  | Ramp_not_safe real real
  | Sweeping_to_start real

type_synonym log_record = "level \<times> msg"

text \<open>\<^verbatim>\<open>isinstance(val,(int,float))\<close>: \<^verbatim>\<open>bool\<close> is a subclass of \<^verbatim>\<open>int\<close>.\<close>

fun num_of :: "pyval \<Rightarrow> real option" where
  "num_of (VInt i) = Some (of_int i)"
| "num_of (VFloat r) = Some r"
| "num_of (VBool b) = Some (if b then 1 else 0)"
| "num_of _ = None"

fun is_dict :: "pyval \<Rightarrow> bool" where
  "is_dict (VDict _) = True"
| "is_dict _ = False"

text \<open>A dictionary whose key set is fixed at construction: \<^verbatim>\<open>d[key] = val\<close> on a key
  that is present keeps the key's position.\<close>

fun dict_set :: "'k \<Rightarrow> 'v \<Rightarrow> ('k \<times> 'v) list \<Rightarrow> ('k \<times> 'v) list" where
  "dict_set k v [] = [(k, v)]"
| "dict_set k v ((k', v') # d) = (if k' = k then (k, v) # d else (k', v') # dict_set k v d)"

definition keys :: "('k \<times> 'v) list \<Rightarrow> 'k list" where
  "keys d = map fst d"

subsection \<open>The state of a MeasurementScript\<close>

record sweep_spec =
  sw_var_name :: "string option"
  sw_start :: "real option"
  sw_stop :: "real option"
  sw_unit :: "string option"
  sw_rate :: "real option"
  sw_duration :: "real option"
  sw_values :: "real list option"

record step_spec =
  st_var_name :: "string option"
  st_start :: "real option"
  st_stop :: "real option"
  st_unit :: "string option"
  st_step_size :: "real option"
  st_values :: "real list option"

text \<open>\<^verbatim>\<open>self._data\<close>: the entry \<^verbatim>\<open>'measure'\<close> holds the flag \<^verbatim>\<open>retrace\<close> and the list
  \<^verbatim>\<open>inputs\<close>; the entries \<^verbatim>\<open>'temp_save'\<close>, \<^verbatim>\<open>'save'\<close> and \<^verbatim>\<open>'plot'\<close> map each of
  \<^verbatim>\<open>inph, quad, raw, amp, phase\<close> to a list of selected names.\<close>

type_synonym selection = "(string \<times> pyval list) list"

record data_cfg =
  data_retrace :: bool
  data_inputs :: "pyval list"
  data_temp_save :: selection
  data_save :: selection
  data_plot :: selection

record mstate =
  analysis :: "string list"
  analysis_params :: pyval
  sph :: "(string \<times> real option) list"
  sweep :: sweep_spec
  step :: step_spec
  modes :: "(string \<times> string option) list"
  volts :: "(string \<times> real option) list"
  lockin :: "(string \<times> real option) list"
  data :: data_cfg
  hard_config :: pyval
  soft_config :: pyval
  adwin_bootload :: bool
  max_rate_config :: "(string \<times> real) list"
  dim :: "nat option"
  logs :: "log_record list"

definition valid_step_vars :: "string list" where
  "valid_step_vars = [''vg'', ''vd'', ''N'', ''bt'', ''phi'', ''psi'', ''theta'']"

definition valid_sweep_vars :: "string list" where
  "valid_sweep_vars = [''vg'', ''vd'', ''bt'', ''bp'', ''phi'', ''psi'', ''theta'']"

definition valid_wp_mode :: "string list" where
  "valid_wp_mode = [''normal'', ''sweep'']"

definition valid_measure_mode :: "string list" where
  "valid_measure_mode = [''static'', ''sweep'']"

definition valid_inputs :: "string list" where
  "valid_inputs = [''raw'', ''inph'', ''quad'']"

definition valid_traces :: "string list" where
  "valid_traces = [''trace'', ''retrace'', ''difference'']"

definition valid_calc :: "string list" where
  "valid_calc = [''amp'', ''phase'']"

definition valid_analysis :: "string list" where
  "valid_analysis = [''polarplot'', ''histogramm'']"

definition init_max_rate_config :: "(string \<times> real) list" where
  "init_max_rate_config =
     [(''bx'', 1/10), (''by'', 1/10), (''bz'', 1/10), (''bp'', 1/10), (''bt'', 1/10),
      (''vg'', 1/10), (''vd'', 1/10)]"

definition sweep_keys :: "string list" where
  "sweep_keys = [''var_name'', ''start'', ''stop'', ''unit'', ''rate'', ''duration'', ''values'']"

definition step_keys :: "string list" where
  "step_keys = [''var_name'', ''start'', ''stop'', ''unit'', ''step_size'', ''values'']"

definition empty_selection :: selection where
  "empty_selection = [(''inph'', []), (''quad'', []), (''raw'', []), (''amp'', []), (''phase'', [])]"

text \<open>The attributes \<^verbatim>\<open>__init__\<close> assigns before it calls \<^verbatim>\<open>set_\<close>. The two default
  configurations are imported from a module that is not part of the sources, so they are
  parameters. \<^verbatim>\<open>self.dim\<close> does not exist before \<^verbatim>\<open>generate_steps\<close> has run.\<close>

definition init_state :: "pyval \<Rightarrow> pyval \<Rightarrow> mstate" where
  "init_state default_hard_config default_soft_config =
     \<lparr> analysis = [],
       analysis_params = VDict [],
       sph = [(''theta'', Some 0), (''phi'', Some 0), (''psi'', Some 0), (''bp'', Some 0),
              (''bt'', Some 0)],
       sweep = \<lparr> sw_var_name = None, sw_start = None, sw_stop = None, sw_unit = None,
                 sw_rate = None, sw_duration = None, sw_values = None \<rparr>,
       step = \<lparr> st_var_name = None, st_start = None, st_stop = None, st_unit = None,
                st_step_size = None, st_values = None \<rparr>,
       modes = [(''wp'', None), (''measure'', None)],
       volts = [(''vd'', None), (''vg'', None)],
       lockin = [(''freq'', None), (''amp'', None), (''tao'', None), (''init_time'', None),
                 (''sample_rate'', Some 500000)],
       data = \<lparr> data_retrace = False, data_inputs = [], data_temp_save = empty_selection,
                data_save = empty_selection, data_plot = empty_selection \<rparr>,
       hard_config = default_hard_config,
       soft_config = default_soft_config,
       adwin_bootload = False,
       max_rate_config = init_max_rate_config,
       dim = None,
       logs = [] \<rparr>"

text \<open>A script built with the two default configurations empty.\<close>

abbreviation fresh :: mstate where
  "fresh \<equiv> init_state (VDict []) (VDict [])"

definition log_to :: "level \<Rightarrow> msg \<Rightarrow> mstate \<Rightarrow> mstate" where
  "log_to l m s = s\<lparr>logs := logs s @ [(l, m)]\<rparr>"

subsection \<open>set_sweep\<close>

text \<open>The body of the loop over \<^verbatim>\<open>kwargs.items()\<close>. The \<^verbatim>\<open>match\<close> statement has the
  cases \<^verbatim>\<open>'var_name'\<close> and \<^verbatim>\<open>'start' | 'stop'\<close> only: the keys \<^verbatim>\<open>unit\<close>, \<^verbatim>\<open>rate\<close>,
  \<^verbatim>\<open>duration\<close> and \<^verbatim>\<open>values\<close> fall through it.\<close>

definition set_sweep_item :: "mstate \<Rightarrow> string \<times> pyval \<Rightarrow> mstate" where
  "set_sweep_item s kv =
     (let key = fst kv; val = snd kv in
      if key \<in> set sweep_keys then
        if key = ''var_name'' then
          (case val of
             VStr v \<Rightarrow>
               if v \<in> set valid_sweep_vars then s\<lparr>sweep := (sweep s)\<lparr>sw_var_name := Some v\<rparr>\<rparr>
               else log_to ERROR (No_valid_sweep_value val key) s
           | _ \<Rightarrow> log_to ERROR (No_valid_sweep_value val key) s)
        else if key = ''start'' then
          (case num_of val of
             Some x \<Rightarrow> s\<lparr>sweep := (sweep s)\<lparr>sw_start := Some x\<rparr>\<rparr>
           | None \<Rightarrow> log_to ERROR (Must_be_number key) s)
        else if key = ''stop'' then
          (case num_of val of
             Some x \<Rightarrow> s\<lparr>sweep := (sweep s)\<lparr>sw_stop := Some x\<rparr>\<rparr>
           | None \<Rightarrow> log_to ERROR (Must_be_number key) s)
        else s
      else s)"

text \<open>After the loop: \<^verbatim>\<open>kwargs['rate'] >= self.max_rate_config[self._sweep['var_name']]\<close>.
  The table lookup is evaluated before the comparison, so a missing variable raises
  KeyError whatever the rate is; comparing a value that is not a number with the
  table's float raises TypeError.\<close>

definition set_sweep :: "mstate \<Rightarrow> kwargs \<Rightarrow> error + mstate" where
  "set_sweep s kw =
     (let s1 = foldl set_sweep_item s kw in
      case map_of kw ''rate'' of
        None \<Rightarrow> Inr s1
      | Some rate \<Rightarrow>
          (case sw_var_name (sweep s1) of
             None \<Rightarrow> Inr s1
           | Some var \<Rightarrow>
               (case map_of (max_rate_config s1) var of
                  None \<Rightarrow> Inl KeyError
                | Some m \<Rightarrow>
                    (case num_of rate of
                       None \<Rightarrow> Inl TypeError
                     | Some r \<Rightarrow>
                         if r \<ge> m then Inr (s1\<lparr>sweep := (sweep s1)\<lparr>sw_rate := Some r\<rparr>\<rparr>)
                         else Inr (log_to WARNING (Rate_not_valid rate m)
                                     (s1\<lparr>sweep := (sweep s1)\<lparr>sw_rate := Some m\<rparr>\<rparr>))))))"

subsection \<open>The other setters\<close>

definition set_step_item :: "mstate \<Rightarrow> string \<times> pyval \<Rightarrow> mstate" where
  "set_step_item s kv =
     (let key = fst kv; val = snd kv in
      if key \<in> set step_keys then
        if key = ''var_name'' then
          (case val of
             VStr v \<Rightarrow>
               if v \<in> set valid_step_vars then s\<lparr>step := (step s)\<lparr>st_var_name := Some v\<rparr>\<rparr>
               else log_to ERROR (No_valid_step_value val key) s
           | _ \<Rightarrow> log_to ERROR (No_valid_step_value val key) s)
        else if key = ''start'' then
          (case num_of val of
             Some x \<Rightarrow> s\<lparr>step := (step s)\<lparr>st_start := Some x\<rparr>\<rparr>
           | None \<Rightarrow> log_to ERROR (Must_be_number key) s)
        else if key = ''stop'' then
          (case num_of val of
             Some x \<Rightarrow> s\<lparr>step := (step s)\<lparr>st_stop := Some x\<rparr>\<rparr>
           | None \<Rightarrow> log_to ERROR (Must_be_number key) s)
        else if key = ''step_size'' then
          (case num_of val of
             Some x \<Rightarrow> s\<lparr>step := (step s)\<lparr>st_step_size := Some x\<rparr>\<rparr>
           | None \<Rightarrow> log_to ERROR (Must_be_number key) s)
        else s
      else s)"

definition set_step :: "mstate \<Rightarrow> kwargs \<Rightarrow> error + mstate" where
  "set_step s kw = Inr (foldl set_step_item s kw)"

text \<open>\<^verbatim>\<open>set_sph\<close>, \<^verbatim>\<open>set_volts\<close> and \<^verbatim>\<open>set_lockin\<close> have the same loop body over their
  own dictionary: a key of the dictionary takes a number, anything else is logged.\<close>

definition set_number ::
  "(string \<times> real option) list \<times> log_record list \<Rightarrow> string \<times> pyval \<Rightarrow>
   (string \<times> real option) list \<times> log_record list" where
  "set_number dl kv =
     (let key = fst kv; val = snd kv in
      if key \<in> set (keys (fst dl)) then
        (case num_of val of
           Some x \<Rightarrow> (dict_set key (Some x) (fst dl), snd dl)
         | None \<Rightarrow> (fst dl, snd dl @ [(ERROR, Must_be_number key)]))
      else dl)"

definition set_sph :: "mstate \<Rightarrow> kwargs \<Rightarrow> error + mstate" where
  "set_sph s kw =
     (let dl = foldl set_number (sph s, logs s) kw in Inr (s\<lparr>sph := fst dl, logs := snd dl\<rparr>))"

definition set_volts :: "mstate \<Rightarrow> kwargs \<Rightarrow> error + mstate" where
  "set_volts s kw =
     (let dl = foldl set_number (volts s, logs s) kw in Inr (s\<lparr>volts := fst dl, logs := snd dl\<rparr>))"

definition set_lockin :: "mstate \<Rightarrow> kwargs \<Rightarrow> error + mstate" where
  "set_lockin s kw =
     (let dl = foldl set_number (lockin s, logs s) kw in
      Inr (s\<lparr>lockin := fst dl, logs := snd dl\<rparr>))"

text \<open>\<^verbatim>\<open>self.valids[key]\<close> for the two keys of \<^verbatim>\<open>self._modes\<close>.\<close>

definition valids_of_mode :: "string \<Rightarrow> string list" where
  "valids_of_mode key = (if key = ''wp'' then valid_wp_mode else valid_measure_mode)"

definition set_modes_item :: "mstate \<Rightarrow> string \<times> pyval \<Rightarrow> mstate" where
  "set_modes_item s kv =
     (let key = fst kv; val = snd kv in
      if key \<in> set (keys (modes s)) then
        (case val of
           VStr v \<Rightarrow>
             if v \<in> set (valids_of_mode key) then s\<lparr>modes := dict_set key (Some v) (modes s)\<rparr>
             else log_to ERROR (No_valid_mode val key) s
         | _ \<Rightarrow> log_to ERROR (No_valid_mode val key) s)
      else s)"

definition set_modes :: "mstate \<Rightarrow> kwargs \<Rightarrow> error + mstate" where
  "set_modes s kw = Inr (foldl set_modes_item s kw)"

definition set_adwin_bootload :: "mstate \<Rightarrow> kwargs \<Rightarrow> error + mstate" where
  "set_adwin_bootload s kw =
     (case map_of kw ''adwin_bootload'' of
        Some (VBool b) \<Rightarrow> Inr (s\<lparr>adwin_bootload := b\<rparr>)
      | _ \<Rightarrow> Inr (log_to ERROR Bootload_not_bool s))"

text \<open>In the else branch the source has \<^verbatim>\<open>assert ValueError\<close>, which asserts that the
  class object is true and so does nothing.\<close>

definition set_hard_config :: "mstate \<Rightarrow> kwargs \<Rightarrow> error + mstate" where
  "set_hard_config s kw =
     (case map_of kw ''hard_config'' of
        Some (VDict d) \<Rightarrow> Inr (log_to WARNING Hard_config_changed (s\<lparr>hard_config := VDict d\<rparr>))
      | _ \<Rightarrow> Inr s)"

definition set_soft_config :: "mstate \<Rightarrow> kwargs \<Rightarrow> error + mstate" where
  "set_soft_config s kw =
     (case map_of kw ''soft_config'' of
        Some (VDict d) \<Rightarrow> Inr (log_to WARNING Soft_config_changed (s\<lparr>soft_config := VDict d\<rparr>))
      | _ \<Rightarrow> Inr s)"

definition set_analysis_item :: "mstate \<Rightarrow> string \<times> pyval \<Rightarrow> mstate" where
  "set_analysis_item s kv =
     (case snd kv of
        VStr v \<Rightarrow> if v \<in> set valid_analysis then s\<lparr>analysis := analysis s @ [v]\<rparr> else s
      | _ \<Rightarrow> s)"

definition set_analysis :: "mstate \<Rightarrow> kwargs \<Rightarrow> error + mstate" where
  "set_analysis s kw = Inr (foldl set_analysis_item s kw)"

text \<open>\<^verbatim>\<open>kwargs.values()[0]\<close>: a \<^verbatim>\<open>dict_values\<close> view is not subscriptable.\<close>

definition set_analysis_params :: "mstate \<Rightarrow> kwargs \<Rightarrow> error + mstate" where
  "set_analysis_params s kw = Inl TypeError"

subsection \<open>set_data\<close>

text \<open>\<^verbatim>\<open>for val3 in val2\<close> for a value that is not a dictionary: a list gives its
  elements, a string its characters, anything else is not iterable.\<close>

fun iterate :: "pyval \<Rightarrow> error + pyval list" where
  "iterate (VList xs) = Inr xs"
| "iterate (VStr t) = Inr (map (\<lambda>c. VStr [c]) t)"
| "iterate _ = Inl TypeError"

definition data_keys :: "string list" where
  "data_keys = [''measure'', ''temp_save'', ''save'', ''plot'']"

text \<open>The keys of \<^verbatim>\<open>self._data[key]\<close>.\<close>

definition phase_keys :: "data_cfg \<Rightarrow> string \<Rightarrow> string list" where
  "phase_keys d key =
     (if key = ''measure'' then [''retrace'', ''inputs'']
      else if key = ''temp_save'' then keys (data_temp_save d)
      else if key = ''save'' then keys (data_save d)
      else keys (data_plot d))"

definition extend_entry :: "string \<Rightarrow> pyval list \<Rightarrow> selection \<Rightarrow> selection" where
  "extend_entry key2 xs sel = map (\<lambda>kv. if fst kv = key2 then (fst kv, snd kv @ xs) else kv) sel"

text \<open>\<^verbatim>\<open>self._data[key][key2].append(val3)\<close> for every \<^verbatim>\<open>val3\<close> of \<open>xs\<close>, with \<open>key2\<close> a key
  of \<^verbatim>\<open>self._data[key]\<close>. The entry \<^verbatim>\<open>retrace\<close> is a \<^verbatim>\<open>bool\<close>, which has no \<^verbatim>\<open>append\<close>.\<close>

definition append_all :: "data_cfg \<Rightarrow> string \<Rightarrow> string \<Rightarrow> pyval list \<Rightarrow> error + data_cfg" where
  "append_all d key key2 xs =
     (if key = ''measure'' then
        if key2 = ''retrace'' then (if xs = [] then Inr d else Inl AttributeError)
        else Inr (d\<lparr>data_inputs := data_inputs d @ xs\<rparr>)
      else if key = ''temp_save'' then
        Inr (d\<lparr>data_temp_save := extend_entry key2 xs (data_temp_save d)\<rparr>)
      else if key = ''save'' then Inr (d\<lparr>data_save := extend_entry key2 xs (data_save d)\<rparr>)
      else Inr (d\<lparr>data_plot := extend_entry key2 xs (data_plot d)\<rparr>))"

text \<open>The body of the loop over \<^verbatim>\<open>val.items()\<close>. For a dictionary \<^verbatim>\<open>val2\<close> the source
  asks \<^verbatim>\<open>self._data[key][key2].keys()\<close> at the first item; the entry is a list or a
  \<^verbatim>\<open>bool\<close>, neither of which has \<^verbatim>\<open>keys\<close>.\<close>

definition set_data_entry :: "string \<Rightarrow> mstate \<Rightarrow> string \<times> pyval \<Rightarrow> error + mstate" where
  "set_data_entry key s kv2 =
     (let key2 = fst kv2; val2 = snd kv2 in
      if key2 \<in> set (phase_keys (data s) key) then
        (case val2 of
           VDict items \<Rightarrow> if items = [] then Inr s else Inl AttributeError
         | _ \<Rightarrow>
             (case iterate val2 of
                Inl e \<Rightarrow> Inl e
              | Inr xs \<Rightarrow>
                  (case append_all (data s) key key2 xs of
                     Inl e \<Rightarrow> Inl e
                   | Inr d \<Rightarrow> Inr (s\<lparr>data := d\<rparr>))))
      else Inr (log_to ERROR (Not_defined_in_vars2 key2 key) s))"

text \<open>A loop whose body can raise: the first exception ends it.\<close>

fun for_each :: "('s \<Rightarrow> 'a \<Rightarrow> error + 's) \<Rightarrow> 's \<Rightarrow> 'a list \<Rightarrow> error + 's" where
  "for_each body s [] = Inr s"
| "for_each body s (x # xs) =
     (case body s x of Inl e \<Rightarrow> Inl e | Inr s' \<Rightarrow> for_each body s' xs)"

text \<open>\<^verbatim>\<open>val.items()\<close> exists for a dictionary only.\<close>

definition set_data_item :: "mstate \<Rightarrow> string \<times> pyval \<Rightarrow> error + mstate" where
  "set_data_item s kv =
     (let key = fst kv; val = snd kv in
      if key \<in> set data_keys then
        (case val of
           VDict items \<Rightarrow> for_each (set_data_entry key) s items
         | _ \<Rightarrow> Inl AttributeError)
      else Inr (log_to ERROR (Not_defined key) s))"

definition set_data :: "mstate \<Rightarrow> kwargs \<Rightarrow> error + mstate" where
  "set_data s kw = for_each set_data_item s kw"

subsection \<open>The dispatcher set_\<close>

definition set_functions_keys :: "string list" where
  "set_functions_keys =
     [''sph'', ''sweep'', ''step'', ''modes'', ''volts'', ''lockin'', ''data'', ''hard_config'',
      ''analysis'', ''soft_config'', ''adwin_bootload'', ''analysis_params'']"

text \<open>\<^verbatim>\<open>self.set_functions[key]\<close>, for a key of the table.\<close>

definition set_functions :: "string \<Rightarrow> mstate \<Rightarrow> kwargs \<Rightarrow> error + mstate" where
  "set_functions key =
     (if key = ''sph'' then set_sph
      else if key = ''sweep'' then set_sweep
      else if key = ''step'' then set_step
      else if key = ''modes'' then set_modes
      else if key = ''volts'' then set_volts
      else if key = ''lockin'' then set_lockin
      else if key = ''data'' then set_data
      else if key = ''hard_config'' then set_hard_config
      else if key = ''analysis'' then set_analysis
      else if key = ''soft_config'' then set_soft_config
      else if key = ''adwin_bootload'' then set_adwin_bootload
      else set_analysis_params)"

text \<open>The body of the loop of \<^verbatim>\<open>set_\<close> over \<^verbatim>\<open>kwargs.items()\<close>. (A name cannot end
  in an underscore here, so the method \<^verbatim>\<open>set_\<close> is \<open>set_vars\<close>.) The setter is a bound
  method called as \<^verbatim>\<open>f(**val)\<close>: an entry \<^verbatim>\<open>self\<close> of \<^verbatim>\<open>val\<close> collides with the
  method's own first argument, and the call raises TypeError before the setter runs.\<close>

definition set_item :: "mstate \<Rightarrow> string \<times> pyval \<Rightarrow> error + mstate" where
  "set_item s kv =
     (let key = fst kv; val = snd kv in
      case val of
        VDict items \<Rightarrow>
          if key \<in> set set_functions_keys then
            if ''self'' \<in> set (keys items) then Inl TypeError
            else set_functions key s items
          else Inr (log_to ERROR (No_var key val) s)
      | _ \<Rightarrow> Inr (log_to ERROR (No_var key val) s))"

definition set_vars :: "mstate \<Rightarrow> kwargs \<Rightarrow> error + mstate" where
  "set_vars s kw = for_each set_item s kw"

subsection \<open>Binary floating point\<close>

text \<open>Python's \<^verbatim>\<open>round(x)\<close> of a float: to the nearest integer, a tie to the even one.\<close>

definition py_round :: "real \<Rightarrow> int" where
  "py_round x =
     (let f = \<lfloor>x\<rfloor>; d = x - of_int f in
      if d < 1/2 then f
      else if d > 1/2 then f + 1
      else if even f then f else f + 1)"

text \<open>A float is the real number it stands for, and an arithmetic operation on floats
  delivers the exact result rounded to the nearest float, a tie to the one with the even
  significand. \<open>round_to p\<close> rounds to \<open>p\<close> significant bits: with \<open>e\<close> the binary
  exponent of \<open>x\<close>, the floats around \<open>x\<close> are the multiples of \<open>2 ^ (e + 1 - p)\<close>. A
  Python float has 53 bits, numpy's \<^verbatim>\<open>float32\<close> has 24. The range of the exponent is not
  bounded here: overflow to infinity, NaN and subnormal numbers are outside the model.
  A Python int is taken to be one that a float64 holds exactly, so that converting it
  to a float changes nothing.\<close>

definition round_to :: "nat \<Rightarrow> real \<Rightarrow> real" where
  "round_to p x =
     (if x = 0 then 0
      else
        let u = 2 powr real_of_int (\<lfloor>log 2 \<bar>x\<bar>\<rfloor> + 1 - int p) in
        real_of_int (py_round (x / u)) * u)"

definition r64 :: "real \<Rightarrow> real" where
  "r64 = round_to 53"

definition r32 :: "real \<Rightarrow> real" where
  "r32 = round_to 24"

subsection \<open>Generating the step and sweep values\<close>

text \<open>\<^verbatim>\<open>np.arange(start, stop, step, dtype=np.float32)\<close>. The length is computed with
  Python's own arithmetic, in float64: the ceiling of \<^verbatim>\<open>(stop - start) / step\<close>, and the
  division raises for a step of zero.\<close>

definition arange_length :: "real \<Rightarrow> real \<Rightarrow> real \<Rightarrow> int" where
  "arange_length start stop stp = \<lceil>r64 (r64 (stop - start) / stp)\<rceil>"

text \<open>The values are computed in the array's own type. The first two places take
  \<^verbatim>\<open>start\<close> and \<^verbatim>\<open>start + step\<close>, narrowed to \<^verbatim>\<open>float32\<close>; the rest is filled from these
  two: with \<open>delta\<close> their difference, place \<open>i\<close> takes \<^verbatim>\<open>first + i*delta\<close>, every
  operation in \<^verbatim>\<open>float32\<close>.\<close>

definition arange_value :: "real \<Rightarrow> real \<Rightarrow> nat \<Rightarrow> real" where
  "arange_value start stp i =
     (let v0 = r32 (r64 start);
          v1 = r32 (r64 (start + stp));
          delta = r32 (v1 - v0)
      in if i = 0 then v0
         else if i = 1 then v1
         else r32 (v0 + r32 (r32 (real i) * delta)))"

definition np_arange :: "real \<Rightarrow> real \<Rightarrow> real \<Rightarrow> error + real list" where
  "np_arange start stop stp =
     (if stp = 0 then Inl ZeroDivisionError
      else if arange_length start stop stp \<le> 0 then Inr []
      else Inr (map (arange_value start stp) [0..<nat (arange_length start stop stp)]))"

text \<open>\<^verbatim>\<open>np.linspace(start, stop, num, dtype=np.float32)\<close> with the default
  \<^verbatim>\<open>endpoint=True\<close>. A negative \<^verbatim>\<open>num\<close> raises ValueError. The values are computed in
  float64, one numpy operation after the other: with \<^verbatim>\<open>div = num - 1\<close>,
  \<^verbatim>\<open>delta = stop - start\<close> and \<^verbatim>\<open>step = delta / div\<close>, place \<open>i\<close> takes
  \<^verbatim>\<open>i * step + start\<close> (\<^verbatim>\<open>i / div * delta + start\<close> should the step be zero, and
  \<^verbatim>\<open>i * delta + start\<close> when \<^verbatim>\<open>div\<close> is not positive).\<close>

definition linspace_value :: "real \<Rightarrow> real \<Rightarrow> int \<Rightarrow> nat \<Rightarrow> real" where
  "linspace_value start stop num i =
     (let dv = real_of_int (num - 1);
          delta = r64 (r64 stop - r64 start);
          stp = r64 (delta / dv)
      in if 0 < dv then
           if stp = 0 then r64 (r64 (r64 (real i / dv) * delta) + r64 start)
           else r64 (r64 (real i * stp) + r64 start)
         else r64 (r64 (real i * delta) + r64 start))"

text \<open>For \<^verbatim>\<open>num > 1\<close> the last place is then set to \<^verbatim>\<open>stop\<close>, and at the end the array is
  narrowed to \<^verbatim>\<open>float32\<close>.\<close>

definition np_linspace :: "real \<Rightarrow> real \<Rightarrow> int \<Rightarrow> error + real list" where
  "np_linspace start stop num =
     (if num < 0 then Inl ValueError
      else
        let n = nat num; ys = map (linspace_value start stop num) [0..<n] in
        Inr (map r32 (if 1 < num then ys[n - 1 := r64 stop] else ys)))"

definition generate_steps :: "mstate \<Rightarrow> error + mstate" where
  "generate_steps s =
     (case st_start (step s) of
        Some a \<Rightarrow>
          (case st_stop (step s) of
             Some b \<Rightarrow>
               (case st_step_size (step s) of
                  Some d \<Rightarrow>
                    (case np_arange a b d of
                       Inl e \<Rightarrow> Inl e
                     | Inr xs \<Rightarrow> Inr (s\<lparr>step := (step s)\<lparr>st_values := Some xs\<rparr>, dim := Some 2\<rparr>))
                | None \<Rightarrow> Inr ((log_to INFO No_step_values s)\<lparr>dim := Some 1\<rparr>))
           | None \<Rightarrow> Inr ((log_to INFO No_step_values s)\<lparr>dim := Some 1\<rparr>))
      | None \<Rightarrow> Inr ((log_to INFO No_step_values s)\<lparr>dim := Some 1\<rparr>))"

text \<open>\<^verbatim>\<open>self._lockin['sample_rate']\<close> as a factor: the entry \<^verbatim>\<open>None\<close> cannot be
  multiplied.\<close>

definition sample_rate :: "mstate \<Rightarrow> error + real" where
  "sample_rate s =
     (case map_of (lockin s) ''sample_rate'' of
        None \<Rightarrow> Inl KeyError
      | Some None \<Rightarrow> Inl TypeError
      | Some (Some f) \<Rightarrow> Inr f)"

text \<open>\<^verbatim>\<open>(stop - start) / rate\<close> and the product with the sample rate are float64
  operations; \<^verbatim>\<open>round\<close> then gives the number of samples.\<close>

definition generate_sweep :: "mstate \<Rightarrow> error + mstate" where
  "generate_sweep s =
     (case sw_start (sweep s) of
        Some a \<Rightarrow>
          (case sw_stop (sweep s) of
             Some b \<Rightarrow>
               (case sw_rate (sweep s) of
                  Some r \<Rightarrow>
                    if r = 0 then Inl ZeroDivisionError
                    else
                      let duration = r64 (r64 (b - a) / r) in
                      (case sample_rate s of
                         Inl e \<Rightarrow> Inl e
                       | Inr f \<Rightarrow>
                           (case np_linspace a b (py_round (r64 (duration * f))) of
                              Inl e \<Rightarrow> Inl e
                            | Inr xs \<Rightarrow>
                                Inr (s\<lparr>sweep := (sweep s)\<lparr>sw_duration := Some duration,
                                                          sw_values := Some xs\<rparr>\<rparr>)))
                | None \<Rightarrow> Inr (log_to ERROR No_sweep_values s))
           | None \<Rightarrow> Inr (log_to ERROR No_sweep_values s))
      | None \<Rightarrow> Inr (log_to ERROR No_sweep_values s))"


definition get_sweep :: "mstate \<Rightarrow> error + mstate" where
  "get_sweep s = (if sw_values (sweep s) = None then generate_sweep s else Inr s)"

subsection \<open>Ramping to a working point\<close>

text \<open>The commands the script sends to the instrument \<^verbatim>\<open>self.anna\<close> that move its
  outputs: \<^verbatim>\<open>sweep(outs, duration)\<close> ramps, \<^verbatim>\<open>sweep_measure(outs, duration)\<close> ramps and
  samples.\<close>

type_synonym outs = "(string \<times> real) list"

datatype command = Sweep outs real | Sweep_measure outs "real option"

text \<open>The loop of \<^verbatim>\<open>wp_setter\<close> over \<^verbatim>\<open>self.wp_start.outs.items()\<close>, with
  \<^verbatim>\<open>min_duration\<close> as the accumulator. \<^verbatim>\<open>temp_wp_outs[key]\<close> and
  \<^verbatim>\<open>self.max_rate_config[key]\<close> raise KeyError on a missing channel, the division raises
  on a rate of zero.\<close>

fun min_duration_loop :: "outs \<Rightarrow> (string \<times> real) list \<Rightarrow> outs \<Rightarrow> real \<Rightarrow> error + real" where
  "min_duration_loop temp_wp_outs max_rate [] min_duration = Inr min_duration"
| "min_duration_loop temp_wp_outs max_rate ((key, val) # rest) min_duration =
     (case map_of temp_wp_outs key of
        None \<Rightarrow> Inl KeyError
      | Some t \<Rightarrow>
          (case map_of max_rate key of
             None \<Rightarrow> Inl KeyError
           | Some r \<Rightarrow>
               if r = 0 then Inl ZeroDivisionError
               else
                 let duration = \<bar>val - t\<bar> / r in
                 min_duration_loop temp_wp_outs max_rate rest
                   (if min_duration < duration then duration else min_duration)))"

text \<open>The class \<^verbatim>\<open>WorkingPoint\<close> is imported from a module that is not part of the
  sources, so what \<^verbatim>\<open>wp_setter\<close> reads from the two working points is a parameter.
  \<open>start_outs\<close> and \<open>stop_outs\<close> are what the loop finds in the objects that
  \<^verbatim>\<open>self.wp_start.outs\<close> and \<^verbatim>\<open>self.wp_stop.outs\<close> gave before \<^verbatim>\<open>set_start_wp\<close> and
  \<^verbatim>\<open>set_stop_wp\<close> ran with the step value \<^verbatim>\<open>x\<close>; \<open>new_start_outs\<close> is what
  \<^verbatim>\<open>self.wp_start.outs.items()\<close> gives after them. (Should \<^verbatim>\<open>outs\<close> hand out one
  dictionary that the setters change in place, \<open>start_outs\<close> is \<open>new_start_outs\<close>.)\<close>

record wp_view =
  start_outs :: outs
  stop_outs :: outs
  new_start_outs :: outs

definition ramp_to_wp :: "wp_view \<Rightarrow> real \<Rightarrow> command list" where
  "ramp_to_wp w dt = [Sweep (new_start_outs w) dt]"

text \<open>\<^verbatim>\<open>temp_wp_outs\<close>: the outputs of the start point when a retrace is measured, of the
  stop point otherwise.\<close>

definition temp_wp_outs :: "mstate \<Rightarrow> wp_view \<Rightarrow> outs" where
  "temp_wp_outs s w = (if data_retrace (data s) then start_outs w else stop_outs w)"

text \<open>\<^verbatim>\<open>wp_setter(x, dt)\<close>. After \<^verbatim>\<open>temp_wp_outs\<close> is bound, the source calls
  \<^verbatim>\<open>self.set_start_wp(**{self._step['var_name']:x})\<close>: with the step variable \<^verbatim>\<open>None\<close>
  the keyword is not a string and the call raises TypeError, before any duration is
  computed. With a step variable the two setters run on the working points; their effect
  is the \<open>new_start_outs\<close> of the view. The result is the exception if one was raised,
  the log, and the commands sent.\<close>

definition wp_setter ::
  "mstate \<Rightarrow> wp_view \<Rightarrow> pyval \<Rightarrow> real option \<Rightarrow>
   (error + unit) \<times> log_record list \<times> command list" where
  "wp_setter s w x dt =
     (case st_var_name (step s) of
        None \<Rightarrow> (Inl TypeError, [], [])
      | Some var \<Rightarrow>
          (case min_duration_loop (temp_wp_outs s w) (max_rate_config s) (new_start_outs w) 0 of
             Inl e \<Rightarrow> (Inl e, [], [])
           | Inr min_duration \<Rightarrow>
               (case dt of
                  None \<Rightarrow> (Inr (), [], ramp_to_wp w min_duration)
                | Some d \<Rightarrow>
                    if d < min_duration
                    then (Inr (), [(WARNING, Ramp_not_safe d min_duration)],
                          ramp_to_wp w min_duration)
                    else (Inr (), [], ramp_to_wp w d))))"

text \<open>The duration as the specification words it: for one channel the distance between
  target and source over the channel's maximum rate, for a ramp the maximum over the
  channels of the target.\<close>

definition channel_duration :: "outs \<Rightarrow> (string \<times> real) list \<Rightarrow> string \<times> real \<Rightarrow> real" where
  "channel_duration source max_rate kv =
     \<bar>snd kv - the (map_of source (fst kv))\<bar> / the (map_of max_rate (fst kv))"

definition compute_duration :: "outs \<Rightarrow> outs \<Rightarrow> (string \<times> real) list \<Rightarrow> real" where
  "compute_duration source target max_rate =
     Max (set (map (channel_duration source max_rate) target))"

text \<open>\<^verbatim>\<open>d[key]\<close> for a string key: only a dictionary can be indexed by a string.\<close>

fun getitem :: "pyval \<Rightarrow> string \<Rightarrow> error + pyval" where
  "getitem (VDict d) key = (case map_of d key of None \<Rightarrow> Inl KeyError | Some v \<Rightarrow> Inr v)"
| "getitem _ key = Inl TypeError"

text \<open>\<^verbatim>\<open>self.hard_config['outputs'][key]['channel']-1\<close> as a list index: an \<^verbatim>\<open>int\<close>
  (or \<^verbatim>\<open>bool\<close>) channel gives an index, a float gives a float, which indexes no list.\<close>

definition channel_index :: "pyval \<Rightarrow> string \<Rightarrow> error + int" where
  "channel_index hc key =
     (case getitem hc ''outputs'' of
        Inl e \<Rightarrow> Inl e
      | Inr outputs \<Rightarrow>
          (case getitem outputs key of
             Inl e \<Rightarrow> Inl e
           | Inr entry \<Rightarrow>
               (case getitem entry ''channel'' of
                  Inl e \<Rightarrow> Inl e
                | Inr (VInt c) \<Rightarrow> Inr (c - 1)
                | Inr (VBool b) \<Rightarrow> Inr ((if b then 1 else 0) - 1)
                | Inr _ \<Rightarrow> Inl TypeError)))"

text \<open>\<^verbatim>\<open>xs[i]\<close>: a negative index counts from the end.\<close>

definition index :: "'a list \<Rightarrow> int \<Rightarrow> error + 'a" where
  "index xs i =
     (if 0 \<le> i \<and> i < int (length xs) then Inr (xs ! nat i)
      else if i < 0 \<and> - i \<le> int (length xs) then Inr (xs ! nat (int (length xs) + i))
      else Inl IndexError)"

text \<open>The loop of \<^verbatim>\<open>start_sweep\<close>; \<^verbatim>\<open>self.valids['maxrate']\<close> is the object
  \<^verbatim>\<open>self.max_rate_config\<close>.\<close>

fun start_time_loop ::
  "pyval \<Rightarrow> real list \<Rightarrow> (string \<times> real) list \<Rightarrow> outs \<Rightarrow> real \<Rightarrow> error + real" where
  "start_time_loop hc outs_start max_rate [] start_time = Inr start_time"
| "start_time_loop hc outs_start max_rate ((key, val) # rest) start_time =
     (case channel_index hc key of
        Inl e \<Rightarrow> Inl e
      | Inr i \<Rightarrow>
          (case index outs_start i of
             Inl e \<Rightarrow> Inl e
           | Inr t \<Rightarrow>
               (case map_of max_rate key of
                  None \<Rightarrow> Inl KeyError
                | Some r \<Rightarrow>
                    if r = 0 then Inl ZeroDivisionError
                    else
                      let duration = \<bar>val - t\<bar> / r in
                      start_time_loop hc outs_start max_rate rest
                        (if start_time < duration then duration else start_time))))"

text \<open>\<^verbatim>\<open>start_sweep\<close>: \<open>outs_start\<close> is what \<^verbatim>\<open>self.anna.read_outputs()\<close> returns and
  \<open>wp_outs\<close> is \<^verbatim>\<open>self.wp_start.outs\<close>. After the message is logged the source calls
  \<^verbatim>\<open>self.ramp_to_wp(self.wp_start.outs,dt=start_time)\<close>, but the method is
  \<^verbatim>\<open>def ramp_to_wp(self,dt)\<close>: the positional argument already binds \<^verbatim>\<open>dt\<close>, and the
  call raises TypeError before the body runs, so no command is sent.\<close>

definition start_sweep ::
  "mstate \<Rightarrow> real list \<Rightarrow> outs \<Rightarrow> (error + unit) \<times> log_record list \<times> command list" where
  "start_sweep s outs_start wp_outs =
     (case start_time_loop (hard_config s) outs_start (max_rate_config s) wp_outs 0 of
        Inl e \<Rightarrow> (Inl e, [], [])
      | Inr start_time \<Rightarrow> (Inl TypeError, [(INFO, Sweeping_to_start start_time)], []))"

subsection \<open>sweep_measure\<close>

text \<open>What the instrument returns during one call of \<^verbatim>\<open>sweep_measure\<close>: the dictionary
  of raw arrays of the first and of the second \<^verbatim>\<open>self.anna.sweep_measure\<close>, and the two
  parameters read with \<^verbatim>\<open>Get_FPar\<close>.\<close>

record adwin =
  trace_reply :: "(string \<times> real list) list"
  retrace_reply :: "(string \<times> real list) list"
  fpar26 :: real
  fpar21 :: real

text \<open>\<^verbatim>\<open>int(x)\<close> of a float truncates towards zero; \<^verbatim>\<open>xs[:n]\<close> with a negative \<^verbatim>\<open>n\<close>
  drops the last \<open>-n\<close> elements.\<close>

definition py_int :: "real \<Rightarrow> int" where
  "py_int x = (if x \<ge> 0 then \<lfloor>x\<rfloor> else \<lceil>x\<rceil>)"

definition slice_upto :: "int \<Rightarrow> 'a list \<Rightarrow> 'a list" where
  "slice_upto n xs = (if n \<ge> 0 then take (nat n) xs else take (length xs - nat (- n)) xs)"

text \<open>The variables \<^verbatim>\<open>tr\<close>, \<^verbatim>\<open>rt\<close> and \<^verbatim>\<open>diff\<close> hold the empty Python list they are
  initialised with, or a numpy array.\<close>

datatype buf = Empty_list | Ndarray "real list"

text \<open>The truth value of a numpy array, as \<^verbatim>\<open>if tr\<close> asks for it: an array of one
  element is as true as the element, an array of more than one element raises
  ValueError (its truth value is ambiguous). An empty array is false (numpy before 2.2,
  with a deprecation warning; later versions raise).\<close>

fun truth_array :: "real list \<Rightarrow> error + bool" where
  "truth_array [] = Inr False"
| "truth_array [x] = Inr (x \<noteq> 0)"
| "truth_array _ = Inl ValueError"

fun truth :: "buf \<Rightarrow> error + bool" where
  "truth Empty_list = Inr False"
| "truth (Ndarray xs) = truth_array xs"

text \<open>An elementwise binary operation of numpy on one-dimensional arrays: equal lengths,
  or one of the two is broadcast from a single element.\<close>

definition np_binop ::
  "(real \<Rightarrow> real \<Rightarrow> real) \<Rightarrow> real list \<Rightarrow> real list \<Rightarrow> error + real list" where
  "np_binop f xs ys =
     (if length xs = length ys then Inr (map (\<lambda>p. f (fst p) (snd p)) (zip xs ys))
      else if length xs = 1 then Inr (map (\<lambda>y. f (hd xs) y) ys)
      else if length ys = 1 then Inr (map (\<lambda>x. f x (hd ys)) xs)
      else Inl ValueError)"

text \<open>\<^verbatim>\<open>rt - tr\<close>. The source reaches it with two arrays only; two Python lists cannot be
  subtracted, and a list beside an array is converted to an array.\<close>

fun buf_sub :: "buf \<Rightarrow> buf \<Rightarrow> error + buf" where
  "buf_sub Empty_list Empty_list = Inl TypeError"
| "buf_sub (Ndarray xs) (Ndarray ys) = map_sum id Ndarray (np_binop (\<lambda>x y. x - y) xs ys)"
| "buf_sub (Ndarray xs) Empty_list = map_sum id Ndarray (np_binop (\<lambda>x y. x - y) xs [])"
| "buf_sub Empty_list (Ndarray ys) = map_sum id Ndarray (np_binop (\<lambda>x y. x - y) [] ys)"

type_synonym values_dict = "(string \<times> real list) list"

text \<open>The loop over \<^verbatim>\<open>key2 in val\<close> that fills \<^verbatim>\<open>tr\<close> and \<^verbatim>\<open>rt\<close>. \<open>retrace\<close> is
  \<^verbatim>\<open>None\<close> when no retrace was measured, and \<^verbatim>\<open>None[key]\<close> raises TypeError.\<close>

fun acquire ::
  "string \<Rightarrow> (string \<times> real list) list \<Rightarrow> (string \<times> real list) list option \<Rightarrow> int \<Rightarrow>
   pyval list \<Rightarrow> buf \<times> buf \<Rightarrow> error + buf \<times> buf" where
  "acquire key trace retrace sr [] trrt = Inr trrt"
| "acquire key trace retrace sr (key2 # val) trrt =
     (if key2 = VStr ''trace'' then
        (case map_of trace key of
           None \<Rightarrow> Inl KeyError
         | Some xs \<Rightarrow> acquire key trace retrace sr val (Ndarray (slice_upto sr xs), snd trrt))
      else if key2 = VStr ''retrace'' then
        (case retrace of
           None \<Rightarrow> Inl TypeError
         | Some reply \<Rightarrow>
             (case map_of reply key of
                None \<Rightarrow> Inl KeyError
              | Some xs \<Rightarrow>
                  acquire key trace retrace sr val (fst trrt, Ndarray (rev (slice_upto sr xs)))))
      else acquire key trace retrace sr val trrt)"

text \<open>\<^verbatim>\<open>if 'difference' in val: if tr and rt: diff = rt - tr else: assert ValueError\<close>.
  The \<^verbatim>\<open>assert\<close> of a class object does nothing, so \<^verbatim>\<open>diff\<close> stays the empty list.\<close>

definition difference_of :: "pyval list \<Rightarrow> buf \<Rightarrow> buf \<Rightarrow> error + buf" where
  "difference_of val tr rt =
     (if VStr ''difference'' \<in> set val then
        (case truth tr of
           Inl e \<Rightarrow> Inl e
         | Inr False \<Rightarrow> Inr Empty_list
         | Inr True \<Rightarrow>
             (case truth rt of
                Inl e \<Rightarrow> Inl e
              | Inr False \<Rightarrow> Inr Empty_list
              | Inr True \<Rightarrow> buf_sub rt tr))
      else Inr Empty_list)"

text \<open>\<^verbatim>\<open>if tr: values_dict[name] = tr\<close>.\<close>

fun store_if :: "string \<Rightarrow> buf \<Rightarrow> values_dict \<Rightarrow> error + values_dict" where
  "store_if name Empty_list vd = Inr vd"
| "store_if name (Ndarray xs) vd =
     (case truth_array xs of
        Inl e \<Rightarrow> Inl e
      | Inr t \<Rightarrow> Inr (if t then dict_set name xs vd else vd))"

definition input_entry ::
  "(string \<times> real list) list \<Rightarrow> (string \<times> real list) list option \<Rightarrow> int \<Rightarrow>
   values_dict \<Rightarrow> string \<times> pyval list \<Rightarrow> error + values_dict" where
  "input_entry trace retrace sr vd kv =
     (let key = fst kv; val = snd kv in
      if val \<noteq> [] \<and> key \<in> set valid_inputs then
        (case acquire key trace retrace sr val (Empty_list, Empty_list) of
           Inl e \<Rightarrow> Inl e
         | Inr trrt \<Rightarrow>
             (case difference_of val (fst trrt) (snd trrt) of
                Inl e \<Rightarrow> Inl e
              | Inr diff \<Rightarrow>
                  (case store_if (key @ ''_trace'') (fst trrt) vd of
                     Inl e \<Rightarrow> Inl e
                   | Inr vd1 \<Rightarrow>
                       (case store_if (key @ ''_retrace'') (snd trrt) vd1 of
                          Inl e \<Rightarrow> Inl e
                        | Inr vd2 \<Rightarrow> store_if (key @ ''_difference'') diff vd2))))
      else Inr vd)"

text \<open>The two module functions, on reals and then on arrays. \<^verbatim>\<open>np.arctan2(y, x)\<close> is the
  angle of the point \<open>(x, y)\<close> in \<open>(-\<pi>, \<pi>]\<close>, and \<open>0\<close> at the origin.\<close>

definition arctan2 :: "real \<Rightarrow> real \<Rightarrow> real" where
  "arctan2 y x =
     (if x > 0 then arctan (y / x)
      else if x < 0 then (if y \<ge> 0 then arctan (y / x) + pi else arctan (y / x) - pi)
      else if y > 0 then pi / 2
      else if y < 0 then - pi / 2
      else 0)"

definition calc_r :: "real list \<Rightarrow> real list \<Rightarrow> error + real list" where
  "calc_r x y = np_binop (\<lambda>a b. sqrt (a\<^sup>2 + b\<^sup>2)) x y"

definition calc_theta :: "real list \<Rightarrow> real list \<Rightarrow> error + real list" where
  "calc_theta x y = np_binop (\<lambda>a b. arctan2 b a) x y"

text \<open>\<^verbatim>\<open>values_dict.get(f'inph_{key2}')\<close>: the keys of \<^verbatim>\<open>values_dict\<close> end in
  \<^verbatim>\<open>trace\<close>, \<^verbatim>\<open>retrace\<close> or \<^verbatim>\<open>difference\<close>, which no value but a string formats to.\<close>

definition get_array :: "values_dict \<Rightarrow> string \<Rightarrow> pyval \<Rightarrow> real list option" where
  "get_array vd name key2 =
     (case key2 of VStr t \<Rightarrow> map_of vd (name @ ''_'' @ t) | _ \<Rightarrow> None)"

text \<open>The dictionaries \<^verbatim>\<open>amp\<close> and \<^verbatim>\<open>phase\<close>.\<close>

type_synonym calc_dict = "(pyval \<times> buf) list"

definition empty_calc :: calc_dict where
  "empty_calc =
     [(VStr ''trace'', Empty_list), (VStr ''retrace'', Empty_list),
      (VStr ''difference'', Empty_list)]"

text \<open>The loop over \<^verbatim>\<open>key2 in val\<close> for a key of \<^verbatim>\<open>valid_calc\<close>; the pair is
  \<^verbatim>\<open>(amp, phase)\<close>. Where the condition is false the source has \<^verbatim>\<open>assert ValueError\<close>,
  which does nothing.\<close>

fun calc_collect ::
  "string \<Rightarrow> values_dict \<Rightarrow> pyval list \<Rightarrow> calc_dict \<times> calc_dict \<Rightarrow>
   error + calc_dict \<times> calc_dict" where
  "calc_collect key vd [] ap = Inr ap"
| "calc_collect key vd (key2 # val) ap =
     (case get_array vd ''inph'' key2 of
        None \<Rightarrow> calc_collect key vd val ap
      | Some x \<Rightarrow>
          (case truth_array x of
             Inl e \<Rightarrow> Inl e
           | Inr False \<Rightarrow> calc_collect key vd val ap
           | Inr True \<Rightarrow>
               (case get_array vd ''quad'' key2 of
                  None \<Rightarrow> calc_collect key vd val ap
                | Some y \<Rightarrow>
                    (case truth_array y of
                       Inl e \<Rightarrow> Inl e
                     | Inr False \<Rightarrow> calc_collect key vd val ap
                     | Inr True \<Rightarrow>
                         if key = ''amp'' then
                           (case calc_r x y of
                              Inl e \<Rightarrow> Inl e
                            | Inr r \<Rightarrow>
                                calc_collect key vd val
                                  (dict_set key2 (Ndarray r) (fst ap), snd ap))
                         else if key = ''phase'' then
                           (case calc_theta x y of
                              Inl e \<Rightarrow> Inl e
                            | Inr r \<Rightarrow>
                                calc_collect key vd val
                                  (fst ap, dict_set key2 (Ndarray r) (snd ap)))
                         else calc_collect key vd val ap))))"

text \<open>A list or a dictionary cannot be the key of a dictionary.\<close>

fun hashable :: "pyval \<Rightarrow> bool" where
  "hashable (VList _) = False"
| "hashable (VDict _) = False"
| "hashable _ = True"

text \<open>\<^verbatim>\<open>if c['trace'] and c['retrace']: c[key2] = c.get('retrace') - c.get('trace')\<close> for
  \<open>c\<close> one of \<^verbatim>\<open>amp\<close> and \<^verbatim>\<open>phase\<close>; \<open>key2\<close> is the variable the loop before has left.\<close>

definition calc_difference :: "pyval \<Rightarrow> calc_dict \<Rightarrow> error + calc_dict" where
  "calc_difference key2 c =
     (case map_of c (VStr ''trace'') of
        None \<Rightarrow> Inl KeyError
      | Some tr \<Rightarrow>
          (case truth tr of
             Inl e \<Rightarrow> Inl e
           | Inr False \<Rightarrow> Inr c
           | Inr True \<Rightarrow>
               (case map_of c (VStr ''retrace'') of
                  None \<Rightarrow> Inl KeyError
                | Some rt \<Rightarrow>
                    (case truth rt of
                       Inl e \<Rightarrow> Inl e
                     | Inr False \<Rightarrow> Inr c
                     | Inr True \<Rightarrow>
                         (case buf_sub rt tr of
                            Inl e \<Rightarrow> Inl e
                          | Inr d \<Rightarrow>
                              if hashable key2 then Inr (dict_set key2 d c)
                              else Inl TypeError)))))"

text \<open>The body of the second loop over \<^verbatim>\<open>temp_save\<close>. It ends in
  \<^verbatim>\<open>for key2,val2 in amp:\<close>, which iterates over the keys of the dictionary: the first
  key is the string \<^verbatim>\<open>'trace'\<close>, and unpacking its five characters into two names
  raises ValueError. So the body never completes for a selected key of \<^verbatim>\<open>valid_calc\<close>.\<close>

definition calc_entry :: "values_dict \<Rightarrow> string \<times> pyval list \<Rightarrow> error + values_dict" where
  "calc_entry vd kv =
     (let key = fst kv; val = snd kv in
      if val \<noteq> [] \<and> key \<in> set valid_calc then
        (case calc_collect key vd val (empty_calc, empty_calc) of
           Inl e \<Rightarrow> Inl e
         | Inr ap \<Rightarrow>
             (case (if VStr ''difference'' \<in> set val then
                      if key = ''amp'' then
                        map_sum id (\<lambda>c. (c, snd ap)) (calc_difference (last val) (fst ap))
                      else if key = ''phase'' then
                        map_sum id (\<lambda>c. (fst ap, c)) (calc_difference (last val) (snd ap))
                      else Inr ap
                    else Inr ap) of
                Inl e \<Rightarrow> Inl e
              | Inr ap' \<Rightarrow> Inl ValueError))
      else Inr vd)"

text \<open>\<^verbatim>\<open>save_dict[f'{key}_{key2}'] = values_dict[f'{key}_{key2}']\<close>.\<close>

definition save_item ::
  "values_dict \<Rightarrow> string \<Rightarrow> values_dict \<Rightarrow> pyval \<Rightarrow> error + values_dict" where
  "save_item vd key sd key2 =
     (case get_array vd key key2 of
        None \<Rightarrow> Inl KeyError
      | Some xs \<Rightarrow>
          (case key2 of
             VStr t \<Rightarrow> Inr (dict_set (key @ ''_'' @ t) xs sd)
           | _ \<Rightarrow> Inl KeyError))"

definition save_entry ::
  "values_dict \<Rightarrow> values_dict \<Rightarrow> string \<times> pyval list \<Rightarrow> error + values_dict" where
  "save_entry vd sd kv = for_each (save_item vd (fst kv)) sd (snd kv)"

text \<open>\<^verbatim>\<open>sweep_measure\<close>, with \<^verbatim>\<open>self.wp_start.outs\<close> and \<^verbatim>\<open>self.wp_stop.outs\<close> as
  parameters. The first statement after the initialisation of \<^verbatim>\<open>trace\<close> and
  \<^verbatim>\<open>retrace\<close> sends the ramp to the stop point; the second ramp follows when the
  retrace flag is set. Everything else works on what the instrument returned. The
  result is the dictionary to save, or the exception, and the commands sent.\<close>

definition sweep_measure ::
  "mstate \<Rightarrow> outs \<Rightarrow> outs \<Rightarrow> adwin \<Rightarrow> (error + values_dict) \<times> command list" where
  "sweep_measure s wp_start_outs wp_stop_outs anna =
     (let duration = sw_duration (sweep s);
          measured = data_retrace (data s);
          commands = Sweep_measure wp_stop_outs duration #
                     (if measured then [Sweep_measure wp_start_outs duration] else []);
          trace = trace_reply anna;
          retrace = (if measured then Some (retrace_reply anna) else None);
          sr = py_int (fpar26 anna * fpar21 anna);
          temp = data_temp_save (data s)
      in
        (case for_each (input_entry trace retrace sr) [] temp of
           Inl e \<Rightarrow> Inl e
         | Inr vd \<Rightarrow>
             (case for_each calc_entry vd temp of
                Inl e \<Rightarrow> Inl e
              | Inr values_dict \<Rightarrow> for_each (save_entry values_dict) [] (data_save (data s))),
         commands))"

section \<open>Properties\<close>

subsection \<open>The sweep setter\<close>

lemmas config_defs = init_state_def set_sweep_def set_sweep_item_def Let_def sweep_keys_def
  valid_sweep_vars_def init_max_rate_config_def log_to_def

lemma set_sweep_item_max_rate: "max_rate_config (set_sweep_item s kv) = max_rate_config s"
  by (simp add: set_sweep_item_def log_to_def Let_def split: pyval.splits option.splits)

lemma set_sweep_item_rate: "sw_rate (sweep (set_sweep_item s kv)) = sw_rate (sweep s)"
  by (simp add: set_sweep_item_def log_to_def Let_def split: pyval.splits option.splits)

lemma set_sweep_loop_max_rate: "max_rate_config (foldl set_sweep_item s kw) = max_rate_config s"
  by (induction kw arbitrary: s) (simp_all add: set_sweep_item_max_rate)

lemma set_sweep_loop_rate: "sw_rate (sweep (foldl set_sweep_item s kw)) = sw_rate (sweep s)"
  by (induction kw arbitrary: s) (simp_all add: set_sweep_item_rate)

text \<open>Only an entry \<^verbatim>\<open>var_name\<close> with a value of the allowed sweep set changes the
  variable name.\<close>

lemma set_sweep_item_var_name:
  "\<not> (\<exists>v. kv = (''var_name'', VStr v) \<and> v \<in> set valid_sweep_vars) \<Longrightarrow>
   sw_var_name (sweep (set_sweep_item s kv)) = sw_var_name (sweep s)"
  by (cases kv)
    (auto simp add: set_sweep_item_def log_to_def Let_def split: pyval.splits option.splits)

lemma set_sweep_loop_var_name:
  "\<forall>v. (''var_name'', VStr v) \<in> set kw \<longrightarrow> v \<notin> set valid_sweep_vars \<Longrightarrow>
   sw_var_name (sweep (foldl set_sweep_item s kw)) = sw_var_name (sweep s)"
proof (induction kw arbitrary: s)
  case Nil
  then show ?case by simp
next
  case (Cons kv kw)
  have "\<not> (\<exists>v. kv = (''var_name'', VStr v) \<and> v \<in> set valid_sweep_vars)"
    using Cons.prems by auto
  then have "sw_var_name (sweep (set_sweep_item s kv)) = sw_var_name (sweep s)"
    by (rule set_sweep_item_var_name)
  moreover have "sw_var_name (sweep (foldl set_sweep_item (set_sweep_item s kv) kw)) =
                 sw_var_name (sweep (set_sweep_item s kv))"
    using Cons.prems by (intro Cons.IH) auto
  ultimately show ?case by simp
qed

text \<open>
  Claim C2. Let the call of \<^verbatim>\<open>set_sweep\<close> carry a numeric \<^verbatim>\<open>rate\<close> \<open>r\<close>, and let the
  sweep variable (as it stands once the loop over the keyword arguments has run, that
  is, set before the call or by the call) have the table maximum \<open>m\<close>. Then the call
  returns, the stored rate is \<open>r\<close> when \<open>r \<ge> m\<close> and \<open>m\<close> when \<open>r < m\<close>, and in the
  second case, and only then, a warning is logged: the table value is a floor.
\<close>

theorem set_sweep_rate_floor:
  assumes "map_of kw ''rate'' = Some rate" and "num_of rate = Some r"
    and "sw_var_name (sweep (foldl set_sweep_item s kw)) = Some var"
    and "map_of (max_rate_config s) var = Some m"
  shows "\<exists>s'. set_sweep s kw = Inr s' \<and>
           sw_rate (sweep s') = Some (if r \<ge> m then r else m) \<and>
           logs s' = logs (foldl set_sweep_item s kw) @
                     (if r \<ge> m then [] else [(WARNING, Rate_not_valid rate m)])"
  using assms by (simp add: set_sweep_def Let_def set_sweep_loop_max_rate log_to_def)

theorem set_sweep_rate_floor_witness:
  "set_sweep (init_state (VDict []) (VDict []))
     [(''rate'', VFloat (1/20)), (''var_name'', VStr ''vg'')] =
   Inr ((init_state (VDict []) (VDict []))
         \<lparr>sweep := (sweep (init_state (VDict []) (VDict [])))
                     \<lparr>sw_var_name := Some ''vg'', sw_rate := Some (1/10)\<rparr>,
          logs := [(WARNING, Rate_not_valid (VFloat (1/20)) (1/10))]\<rparr>)"
  using set_sweep_rate_floor [of "[(''rate'', VFloat (1/20)), (''var_name'', VStr ''vg'')]"
      "VFloat (1/20)" "1/20" "init_state (VDict []) (VDict [])" "''vg''" "1/10"]
  by (simp add: config_defs)

text \<open>The variables of the allowed sweep set that the table of maximum rates does not
  list.\<close>

lemma unlisted_sweep_vars:
  "{v \<in> set valid_sweep_vars. map_of init_max_rate_config v = None} =
   {''phi'', ''psi'', ''theta''}"
  by (auto simp add: valid_sweep_vars_def init_max_rate_config_def)

text \<open>
  Claim C9. \<^verbatim>\<open>phi\<close>, \<^verbatim>\<open>psi\<close> and \<^verbatim>\<open>theta\<close> are allowed sweep variables without an
  entry in the table of maximum rates. With one of them as the sweep variable and the
  table as \<^verbatim>\<open>__init__\<close> builds it, every call of \<^verbatim>\<open>set_sweep\<close> that carries a \<^verbatim>\<open>rate\<close>,
  whatever its value, raises KeyError.
\<close>

theorem set_sweep_unlisted_var_KeyError:
  assumes "map_of kw ''rate'' = Some rate"
    and "sw_var_name (sweep (foldl set_sweep_item s kw)) = Some var"
    and "var \<in> {''phi'', ''psi'', ''theta''}"
    and "max_rate_config s = init_max_rate_config"
  shows "var \<in> set valid_sweep_vars \<and> map_of init_max_rate_config var = None \<and>
         set_sweep s kw = Inl KeyError"
  using assms
  by (auto simp add: set_sweep_def Let_def set_sweep_loop_max_rate valid_sweep_vars_def
      init_max_rate_config_def)

theorem set_sweep_unlisted_var_KeyError_witness:
  "set_sweep ((init_state (VDict []) (VDict []))
       \<lparr>sweep := (sweep (init_state (VDict []) (VDict [])))\<lparr>sw_var_name := Some ''phi''\<rparr>\<rparr>)
     [(''rate'', VFloat 5)] = Inl KeyError"
  using set_sweep_unlisted_var_KeyError [of "[(''rate'', VFloat 5)]" "VFloat 5"
      "(init_state (VDict []) (VDict []))
       \<lparr>sweep := (sweep (init_state (VDict []) (VDict [])))\<lparr>sw_var_name := Some ''phi''\<rparr>\<rparr>"
      "''phi''"]
  by (simp add: config_defs)

text \<open>
  Claim C10, as stated, fails: on a fresh script, where the variable name is \<^verbatim>\<open>None\<close>,
  the call \<^verbatim>\<open>set_sweep(rate=0.5, var_name='vg')\<close> does not discard the rate. The loop
  sets the variable name first, the rate is looked at after the loop, and 0.5 is stored.
\<close>

theorem set_sweep_rate_with_var_name:
  "sw_var_name (sweep (init_state (VDict []) (VDict []))) = None \<and>
   set_sweep (init_state (VDict []) (VDict []))
     [(''rate'', VFloat (1/2)), (''var_name'', VStr ''vg'')] =
   Inr ((init_state (VDict []) (VDict []))
         \<lparr>sweep := (sweep (init_state (VDict []) (VDict [])))
                     \<lparr>sw_var_name := Some ''vg'', sw_rate := Some (1/2)\<rparr>\<rparr>)"
  by (simp add: config_defs)

text \<open>
  Claim C10, amended. When the variable name is \<^verbatim>\<open>None\<close> and the call carries no
  \<^verbatim>\<open>var_name\<close> of the allowed sweep set, the part of \<^verbatim>\<open>set_sweep\<close> that handles the
  rate does nothing: the call returns what the loop over the other entries has produced,
  with no error and no log record for the rate, the rate field is what it was, and the
  variable name is still \<^verbatim>\<open>None\<close>. A call with nothing but a \<^verbatim>\<open>rate\<close> returns the state
  unchanged, whatever the value.
\<close>

theorem set_sweep_rate_discarded:
  assumes "sw_var_name (sweep s) = None"
    and "\<forall>v. (''var_name'', VStr v) \<in> set kw \<longrightarrow> v \<notin> set valid_sweep_vars"
  shows "set_sweep s kw = Inr (foldl set_sweep_item s kw) \<and>
         sw_rate (sweep (foldl set_sweep_item s kw)) = sw_rate (sweep s) \<and>
         sw_var_name (sweep (foldl set_sweep_item s kw)) = None \<and>
         set_sweep s [(''rate'', rate)] = Inr s"
proof -
  have loop: "sw_var_name (sweep (foldl set_sweep_item s kw)) = None"
    using assms by (simp add: set_sweep_loop_var_name)
  have "set_sweep s kw = Inr (foldl set_sweep_item s kw)"
    using loop by (simp add: set_sweep_def Let_def split: option.splits)
  moreover have "set_sweep s [(''rate'', rate)] = Inr s"
    using assms(1) by (simp add: set_sweep_def set_sweep_item_def sweep_keys_def Let_def)
  ultimately show ?thesis
    using loop by (simp add: set_sweep_loop_rate)
qed

theorem set_sweep_rate_discarded_witness:
  "set_sweep (init_state (VDict []) (VDict [])) [(''rate'', VFloat (1/2)), (''start'', VInt 0)] =
   Inr ((init_state (VDict []) (VDict []))
         \<lparr>sweep := (sweep (init_state (VDict []) (VDict [])))\<lparr>sw_start := Some 0\<rparr>\<rparr>) \<and>
   sw_rate (sweep (init_state (VDict []) (VDict []))) = None"
  using set_sweep_rate_discarded [of "init_state (VDict []) (VDict [])"
      "[(''rate'', VFloat (1/2)), (''start'', VInt 0)]" "VFloat (1/2)"]
  by (simp add: config_defs)

subsection \<open>The dispatcher\<close>

lemma for_each_append:
  "for_each body s (xs @ ys) =
     (case for_each body s xs of Inl e \<Rightarrow> Inl e | Inr s' \<Rightarrow> for_each body s' ys)"
  by (induction xs arbitrary: s) (simp_all split: sum.splits)

lemma set_item_unknown:
  "key \<notin> set set_functions_keys \<Longrightarrow>
   set_item s (key, val) = Inr (s\<lparr>logs := logs s @ [(ERROR, No_var key val)]\<rparr>)"
  by (simp add: set_item_def log_to_def split: pyval.splits)

text \<open>
  Claim C8. A key that is not in the dispatch table does not make \<^verbatim>\<open>set_\<close> raise: it
  adds one error record to the log and changes no other field of the state. Passed
  alone, that is the whole effect of the call; passed among other keys, the call does
  with the keys before it and after it what it would do without the unknown key.
\<close>

theorem set_vars_unknown_key:
  assumes "key \<notin> set set_functions_keys"
  shows "set_vars s [(key, val)] = Inr (s\<lparr>logs := logs s @ [(ERROR, No_var key val)]\<rparr>) \<and>
         set_vars s (before @ (key, val) # after) =
           (case set_vars s before of
              Inl e \<Rightarrow> Inl e
            | Inr s1 \<Rightarrow> set_vars (s1\<lparr>logs := logs s1 @ [(ERROR, No_var key val)]\<rparr>) after)"
  using assms by (simp add: set_vars_def for_each_append set_item_unknown split: sum.splits)

theorem set_vars_unknown_key_witness:
  "set_vars fresh [(''sweeep'', VDict [(''start'', VInt 1)])] =
   Inr (fresh\<lparr>logs := [(ERROR, No_var ''sweeep'' (VDict [(''start'', VInt 1)]))]\<rparr>)"
  using set_vars_unknown_key [of "''sweeep''" fresh "VDict [(''start'', VInt 1)]" "[]" "[]"]
  by (simp add: set_functions_keys_def init_state_def)

text \<open>For a key of the table, an entry \<^verbatim>\<open>self\<close> in its dictionary makes the call of the
  setter fail.\<close>

lemma set_item_self:
  "key \<in> set set_functions_keys \<Longrightarrow> ''self'' \<in> set (keys items) \<Longrightarrow>
   set_item s (key, VDict items) = Inl TypeError"
  by (simp add: set_item_def)

text \<open>A configuration that asks for the difference of the in-phase signal and for
  nothing else, as the dispatcher stores it; the retrace flag stays \<^verbatim>\<open>False\<close>.\<close>

lemma request_difference_config:
  "set_vars fresh
     [(''data'', VDict [(''temp_save'', VDict [(''inph'', VList [VStr ''difference''])])])] =
   Inr (fresh\<lparr>data := (data fresh)\<lparr>data_temp_save :=
          [(''inph'', [VStr ''difference'']), (''quad'', []), (''raw'', []), (''amp'', []),
           (''phase'', [])]\<rparr>\<rparr>)"
  by (simp add: set_vars_def set_item_def set_functions_keys_def set_functions_def set_data_def
      set_data_item_def set_data_entry_def data_keys_def phase_keys_def keys_def append_all_def
      extend_entry_def init_state_def empty_selection_def Let_def)

subsection \<open>Rounding\<close>

lemma py_round_of_int: "py_round (of_int n) = n"
  by (simp add: py_round_def)

lemma py_round_error: "\<bar>real_of_int (py_round x) - x\<bar> \<le> 1/2"
proof -
  have "of_int \<lfloor>x\<rfloor> \<le> x" "x < of_int \<lfloor>x\<rfloor> + 1"
    by linarith+
  then show ?thesis
    by (auto simp add: py_round_def Let_def)
qed

lemma floor_log2_power:
  assumes "2 ^ e \<le> x" and "x < 2 ^ Suc e"
  shows "\<lfloor>log 2 x\<rfloor> = int e"
proof -
  have "(0::real) < 2 ^ e"
    by simp
  then have pos: "0 < x"
    using assms(1) by linarith
  have "real e \<le> log 2 x"
    using assms(1) pos by (simp add: le_log_iff powr_realpow)
  moreover have "log 2 x < real e + 1"
    using assms(2) pos by (simp add: log_less_iff powr_add powr_realpow)
  ultimately show ?thesis
    by (simp add: floor_eq_iff)
qed

text \<open>The unit in the last place is at most |x| / 2^(p-1).\<close>

lemma ulp_le:
  assumes "x \<noteq> 0"
  shows "2 powr real_of_int (\<lfloor>log 2 \<bar>x\<bar>\<rfloor> + 1 - int p) \<le> 2 * \<bar>x\<bar> / 2 ^ p"
proof -
  define e where "e = \<lfloor>log 2 \<bar>x\<bar>\<rfloor>"
  have "real_of_int e \<le> log 2 \<bar>x\<bar>"
    by (simp add: e_def)
  then have low: "2 powr real_of_int e \<le> \<bar>x\<bar>"
    using assms le_log_iff [of 2 "\<bar>x\<bar>" "real_of_int e"] by simp
  have "real_of_int (e + 1 - int p) = real_of_int e + 1 - real p"
    by simp
  then have "2 powr real_of_int (e + 1 - int p) = 2 powr real_of_int e * 2 / 2 ^ p"
    by (simp add: powr_add powr_diff powr_realpow)
  also have "\<dots> \<le> \<bar>x\<bar> * 2 / 2 ^ p"
    using low by (simp add: divide_right_mono)
  finally show ?thesis
    by (simp add: e_def mult.commute)
qed

lemma round_to_error: "\<bar>round_to p x - x\<bar> \<le> \<bar>x\<bar> / 2 ^ p"
proof (cases "x = 0")
  case True
  then show ?thesis by (simp add: round_to_def)
next
  case False
  define u where "u = 2 powr real_of_int (\<lfloor>log 2 \<bar>x\<bar>\<rfloor> + 1 - int p)"
  have pos: "0 < u"
    by (simp add: u_def)
  have small: "u \<le> 2 * \<bar>x\<bar> / 2 ^ p"
    unfolding u_def using False by (rule ulp_le)
  have "round_to p x = real_of_int (py_round (x / u)) * u"
    using False unfolding round_to_def u_def Let_def by simp
  then have "round_to p x - x = (real_of_int (py_round (x / u)) - x / u) * u"
    using pos by (simp add: algebra_simps)
  then have "\<bar>round_to p x - x\<bar> = \<bar>real_of_int (py_round (x / u)) - x / u\<bar> * u"
    using pos by (simp add: abs_mult)
  also have "\<dots> \<le> 1/2 * u"
    using py_round_error [of "x / u"] pos by (intro mult_right_mono) simp_all
  also have "\<dots> \<le> \<bar>x\<bar> / 2 ^ p"
  proof -
    have "u / 2 \<le> (2 * \<bar>x\<bar> / 2 ^ p) / 2"
      using small by (rule divide_right_mono) simp
    then show ?thesis by simp
  qed
  finally show ?thesis .
qed

lemma round_to_of_int:
  assumes "\<bar>n\<bar> < 2 ^ p"
  shows "round_to p (of_int n) = of_int n"
proof (cases "n = 0")
  case True
  then show ?thesis by (simp add: round_to_def)
next
  case False
  define j where "j = \<lfloor>log 2 \<bar>real_of_int n\<bar>\<rfloor> + 1 - int p"
  define u where "u = 2 powr real_of_int j"
  have "\<bar>real_of_int n\<bar> < 2 ^ p"
    using assms by (metis of_int_abs of_int_less_numeral_power_cancel_iff)
  then have "log 2 \<bar>real_of_int n\<bar> < real p"
    using False by (simp add: log_less_iff powr_realpow)
  then have "\<lfloor>log 2 \<bar>real_of_int n\<bar>\<rfloor> < int p"
    by (simp add: floor_less_iff)
  then have j: "j \<le> 0"
    by (simp add: j_def)
  have "(2::real) powr real_of_int j = (if j \<ge> 0 then 2 ^ nat j else inverse (2 ^ nat (- j)))"
    by (rule powr_real_of_int) simp
  then have u: "u = 1 / 2 ^ nat (- j)"
    using j by (cases "j = 0") (simp_all add: u_def inverse_eq_divide)
  then have q: "real_of_int n / u = real_of_int (n * 2 ^ nat (- j))"
    by simp
  have "py_round (real_of_int n / u) = n * 2 ^ nat (- j)"
    by (simp only: q py_round_of_int)
  then have "real_of_int (py_round (real_of_int n / u)) * u = real_of_int n"
    using u by simp
  moreover have "round_to p (real_of_int n) = real_of_int (py_round (real_of_int n / u)) * u"
    using False unfolding round_to_def u_def j_def Let_def by simp
  ultimately show ?thesis
    by simp
qed

lemma r64_of_int: "\<bar>n\<bar> < 2 ^ 53 \<Longrightarrow> r64 (of_int n) = of_int n"
  by (simp add: r64_def round_to_of_int)

lemma r32_of_int: "\<bar>n\<bar> < 2 ^ 24 \<Longrightarrow> r32 (of_int n) = of_int n"
  by (simp add: r32_def round_to_of_int)


lemma one_le_abs_of_int: "k \<noteq> 0 \<Longrightarrow> 1 \<le> \<bar>real_of_int k\<bar>"
proof -
  assume "k \<noteq> 0"
  then have "1 \<le> \<bar>k\<bar>"
    by linarith
  then have "real_of_int 1 \<le> real_of_int \<bar>k\<bar>"
    by (simp only: of_int_le_iff)
  then show ?thesis
    by simp
qed

text \<open>Rounding the quotient of two integers does not move it across an integer, as long
  as the dividend is a float itself.\<close>

lemma ceiling_r64_quotient:
  assumes "d \<noteq> 0" and "\<bar>n\<bar> < 2 ^ 53"
  shows "\<lceil>r64 (real_of_int n / real_of_int d)\<rceil> = \<lceil>real_of_int n / real_of_int d\<rceil>"
proof -
  define q where "q = real_of_int n / real_of_int d"
  define m where "m = \<lceil>q\<rceil>"
  have d0: "real_of_int d \<noteq> 0"
    using assms(1) by simp
  have d1: "1 \<le> \<bar>real_of_int d\<bar>"
    using assms(1) by (rule one_le_abs_of_int)
  have n_eq: "real_of_int n = q * real_of_int d"
    using d0 by (simp add: q_def)
  have bounds: "real_of_int m - 1 < q" "q \<le> real_of_int m"
    unfolding m_def by linarith+
  show ?thesis
  proof (cases "q = real_of_int m")
    case True
    then have "real_of_int n = real_of_int (m * d)"
      using n_eq by simp
    then have "n = m * d"
      by (simp only: of_int_eq_iff)
    moreover have "\<bar>m\<bar> * 1 \<le> \<bar>m\<bar> * \<bar>d\<bar>"
      using assms(1) by (intro mult_left_mono) simp_all
    ultimately have "\<bar>m\<bar> \<le> \<bar>n\<bar>"
      by (simp add: abs_mult)
    then have "\<bar>m\<bar> < 2 ^ 53"
      using assms(2) by linarith
    then have "r64 q = q"
      using True by (simp add: r64_of_int)
    then show ?thesis
      by (simp add: q_def)
  next
    case False
    have "m * d - n \<noteq> 0"
    proof
      assume "m * d - n = 0"
      then have "n = m * d"
        by simp
      then have "real_of_int n = real_of_int m * real_of_int d"
        by (simp only: of_int_mult)
      then have "q = real_of_int m"
        using d0 by (simp add: q_def)
      then show False
        using False by simp
    qed
    then have "1 \<le> \<bar>real_of_int (m * d - n)\<bar>"
      by (rule one_le_abs_of_int)
    moreover have "real_of_int (m * d - n) = (real_of_int m - q) * real_of_int d"
      using n_eq by (simp add: algebra_simps)
    ultimately have up: "1 \<le> (real_of_int m - q) * \<bar>real_of_int d\<bar>"
      using bounds(2) by (simp add: abs_mult)
    have "n - (m - 1) * d \<noteq> 0"
    proof
      assume "n - (m - 1) * d = 0"
      then have "n = (m - 1) * d"
        by simp
      then have "real_of_int n = (real_of_int m - 1) * real_of_int d"
        by (simp only: of_int_mult of_int_diff of_int_1)
      then have "q = real_of_int m - 1"
        using d0 by (simp add: q_def)
      then show False
        using bounds(1) by simp
    qed
    then have "1 \<le> \<bar>real_of_int (n - (m - 1) * d)\<bar>"
      by (rule one_le_abs_of_int)
    moreover have "real_of_int (n - (m - 1) * d) = (q - (real_of_int m - 1)) * real_of_int d"
      using n_eq by (simp add: algebra_simps)
    ultimately have down: "1 \<le> (q - (real_of_int m - 1)) * \<bar>real_of_int d\<bar>"
      using bounds(1) by (simp add: abs_mult)
    have "\<bar>r64 q - q\<bar> \<le> \<bar>q\<bar> / 2 ^ 53"
      unfolding r64_def by (rule round_to_error)
    then have "\<bar>r64 q - q\<bar> * \<bar>real_of_int d\<bar> \<le> \<bar>q\<bar> / 2 ^ 53 * \<bar>real_of_int d\<bar>"
      by (rule mult_right_mono) simp
    also have "\<dots> = \<bar>real_of_int n\<bar> / 2 ^ 53"
      using n_eq by (simp add: abs_mult)
    also have "\<dots> < 1"
    proof -
      have "real_of_int \<bar>n\<bar> < real_of_int (2 ^ 53)"
        using assms(2) by (simp only: of_int_less_iff)
      then show ?thesis
        by simp
    qed
    finally have err: "\<bar>r64 q - q\<bar> * \<bar>real_of_int d\<bar> < 1" .
    have pos: "0 < \<bar>real_of_int d\<bar>"
      using d1 by linarith
    have "\<bar>r64 q - q\<bar> * \<bar>real_of_int d\<bar> < (real_of_int m - q) * \<bar>real_of_int d\<bar>"
      using err up by linarith
    then have lt1: "\<bar>r64 q - q\<bar> < real_of_int m - q"
      using pos by (simp only: mult_less_cancel_right_pos)
    have "\<bar>r64 q - q\<bar> * \<bar>real_of_int d\<bar> < (q - (real_of_int m - 1)) * \<bar>real_of_int d\<bar>"
      using err down by linarith
    then have lt2: "\<bar>r64 q - q\<bar> < q - (real_of_int m - 1)"
      using pos by (simp only: mult_less_cancel_right_pos)
    have "real_of_int m - 1 < r64 q" "r64 q \<le> real_of_int m"
      using lt1 lt2 by linarith+
    then have "\<lceil>r64 q\<rceil> = m"
      by (rule ceiling_unique)
    then show ?thesis
      by (simp add: m_def q_def)
  qed
qed

lemma r32_tie: "r32 16777217 = 16777216"
proof -
  have "\<lfloor>log 2 (16777217::real)\<rfloor> = int 24"
    by (rule floor_log2_power) simp_all
  then show ?thesis
    by (simp add: r32_def round_to_def py_round_def Let_def)
qed

lemma r32_of_nat: "n < 2 ^ 24 \<Longrightarrow> r32 (real n) = real n"
  using r32_of_int [of "int n"] by simp

lemma round_to_0: "round_to p 0 = 0"
  by (simp add: round_to_def)

lemma r64_0: "r64 0 = 0"
  by (simp add: r64_def round_to_0)

lemma r32_0: "r32 0 = 0"
  by (simp add: r32_def round_to_0)

lemma r64_1: "r64 1 = 1"
  using r64_of_int [of 1] by simp

lemma r32_1: "r32 1 = 1"
  using r32_of_int [of 1] by simp

lemma r64_numeral: "numeral k < (2::int) ^ 53 \<Longrightarrow> r64 (numeral k) = numeral k"
  using r64_of_int [of "numeral k"] by simp

lemma r64_neg_numeral: "numeral k < (2::int) ^ 53 \<Longrightarrow> r64 (- numeral k) = - numeral k"
  using r64_of_int [of "- numeral k"] by simp

lemma r64_neg_1: "r64 (- 1) = - 1"
  using r64_of_int [of "- 1"] by simp

lemma r32_numeral: "numeral k < (2::int) ^ 24 \<Longrightarrow> r32 (numeral k) = numeral k"
  using r32_of_int [of "numeral k"] by simp

lemmas float_simps = r64_0 r32_0 r64_1 r32_1 r64_numeral r64_neg_numeral r64_neg_1 r32_numeral

text \<open>Rounding a number whose binary exponent is known.\<close>

lemma round_to_exponent:
  assumes "2 powr real_of_int e \<le> \<bar>x\<bar>" and "\<bar>x\<bar> < 2 powr real_of_int (e + 1)"
  shows "round_to p x =
         real_of_int (py_round (x / 2 powr real_of_int (e + 1 - int p))) *
         2 powr real_of_int (e + 1 - int p)"
proof -
  have "(0::real) < 2 powr real_of_int e"
    by simp
  then have pos: "0 < \<bar>x\<bar>"
    using assms(1) by linarith
  have "real_of_int e \<le> log 2 \<bar>x\<bar>"
    using assms(1) pos by (simp add: le_log_iff)
  moreover have "log 2 \<bar>x\<bar> < real_of_int e + 1"
    using assms(2) pos by (simp add: log_less_iff)
  ultimately have "\<lfloor>log 2 \<bar>x\<bar>\<rfloor> = e"
    by (simp add: floor_eq_iff)
  then show ?thesis
    using pos by (simp add: round_to_def Let_def)
qed

lemma r32_two_to_24: "r32 16777216 = 16777216"
proof -
  have "\<lfloor>log 2 (16777216::real)\<rfloor> = int 24"
    by (rule floor_log2_power) simp_all
  then show ?thesis
    by (simp add: r32_def round_to_def py_round_def Let_def)
qed

subsection \<open>Step values and the dimension\<close>

text \<open>The terms of an integer progression before the stop value lie between start and
  stop.\<close>

lemma progression_between:
  assumes "d \<noteq> 0" and "real j < real_of_int (b - a) / real_of_int d"
  shows "(0 < d \<longrightarrow> a \<le> a + int j * d \<and> a + int j * d < b) \<and>
         (d < 0 \<longrightarrow> b < a + int j * d \<and> a + int j * d \<le> a)"
proof (cases "0 < d")
  case True
  then have "real j * real_of_int d < real_of_int (b - a)"
    using assms(2) by (simp add: pos_less_divide_eq)
  then have "real_of_int (int j * d) < real_of_int (b - a)"
    by simp
  then have "int j * d < b - a"
    by (simp only: of_int_less_iff)
  moreover have "0 \<le> int j * d"
    using True by simp
  ultimately show ?thesis
    using True by simp
next
  case False
  then have neg: "d < 0"
    using assms(1) by simp
  then have "real_of_int (b - a) < real j * real_of_int d"
    using assms(2) by (simp add: neg_less_divide_eq)
  then have "real_of_int (b - a) < real_of_int (int j * d)"
    by simp
  then have "b - a < int j * d"
    by (simp only: of_int_less_iff)
  moreover have "int j * d \<le> 0"
    using neg by (simp add: mult_nonneg_nonpos)
  ultimately show ?thesis
    using neg by simp
qed

lemma progression_small:
  assumes "d \<noteq> 0" and "real j < real_of_int (b - a) / real_of_int d"
    and "\<bar>a\<bar> < 2 ^ 23" and "\<bar>b\<bar> < 2 ^ 23"
  shows "\<bar>a + int j * d\<bar> < 2 ^ 23" and "\<bar>int j * d\<bar> < 2 ^ 24"
proof -
  define t where "t = a + int j * d"
  have "(0 < d \<longrightarrow> a \<le> t \<and> t < b) \<and> (d < 0 \<longrightarrow> b < t \<and> t \<le> a)"
    unfolding t_def using assms(1,2) by (rule progression_between)
  then have "(a \<le> t \<and> t < b) \<or> (b < t \<and> t \<le> a)"
    using assms(1) by (cases "0 < d") simp_all
  then have small: "\<bar>t\<bar> < 2 ^ 23"
    using assms(3,4) by auto
  then show "\<bar>a + int j * d\<bar> < 2 ^ 23"
    by (simp only: t_def)
  have "\<bar>t - a\<bar> < 2 ^ 24"
    using small assms(3) by simp
  then show "\<bar>int j * d\<bar> < 2 ^ 24"
    by (simp add: t_def)
qed

text \<open>On integers of 23 bits every operation of \<^verbatim>\<open>np.arange\<close> is exact.\<close>

lemma arange_length_int:
  assumes "d \<noteq> 0" and "\<bar>a\<bar> < 2 ^ 23" and "\<bar>b\<bar> < 2 ^ 23"
  shows "arange_length (real_of_int a) (real_of_int b) (real_of_int d) =
         \<lceil>real_of_int (b - a) / real_of_int d\<rceil>"
proof -
  have "\<bar>b - a\<bar> < 2 ^ 53"
    using assms(2,3) by simp
  then have "r64 (real_of_int (b - a)) = real_of_int (b - a)"
    by (rule r64_of_int)
  moreover have "\<lceil>r64 (real_of_int (b - a) / real_of_int d)\<rceil> =
        \<lceil>real_of_int (b - a) / real_of_int d\<rceil>"
    using assms(1) \<open>\<bar>b - a\<bar> < 2 ^ 53\<close> by (rule ceiling_r64_quotient)
  ultimately show ?thesis
    by (simp add: arange_length_def)
qed

lemma arange_value_int:
  assumes "d \<noteq> 0" and "real i < real_of_int (b - a) / real_of_int d"
    and "\<bar>a\<bar> < 2 ^ 23" and "\<bar>b\<bar> < 2 ^ 23"
  shows "arange_value (real_of_int a) (real_of_int d) i = real_of_int a + real i * real_of_int d"
proof -
  have v0: "r32 (r64 (real_of_int a)) = real_of_int a"
    using assms(3) by (simp add: r64_of_int r32_of_int)
  show ?thesis
  proof (cases "i = 0")
    case True
    then show ?thesis
      using v0 by (simp add: arange_value_def)
  next
    case False
    then have "real 1 \<le> real i"
      by simp
    then have one: "real 1 < real_of_int (b - a) / real_of_int d"
      using assms(2) by linarith
    have s1: "\<bar>a + int 1 * d\<bar> < 2 ^ 23" "\<bar>int 1 * d\<bar> < 2 ^ 24"
      using assms(1) one assms(3,4) by (rule progression_small)+
    have "r64 (real_of_int (a + d)) = real_of_int (a + d)"
      using s1(1) by (intro r64_of_int) simp
    then have v1: "r32 (r64 (real_of_int a + real_of_int d)) = real_of_int a + real_of_int d"
      using s1(1) r32_of_int [of "a + d"] by simp
    have delta: "r32 (real_of_int d) = real_of_int d"
      using s1(2) by (simp add: r32_of_int)
    have si: "\<bar>a + int i * d\<bar> < 2 ^ 23" "\<bar>int i * d\<bar> < 2 ^ 24"
      using assms by (rule progression_small)+
    have "\<bar>int i\<bar> * 1 \<le> \<bar>int i\<bar> * \<bar>d\<bar>"
      using assms(1) by (intro mult_left_mono) simp_all
    then have "int i < 2 ^ 24"
      using si(2) by (simp add: abs_mult)
    then have "i < 2 ^ 24"
      by (metis of_nat_less_numeral_power_cancel_iff)
    then have ri: "r32 (real i) = real i"
      by (rule r32_of_nat)
    have prod: "r32 (real i * real_of_int d) = real i * real_of_int d"
      using si(2) r32_of_int [of "int i * d"] by simp
    have sum: "r32 (real_of_int a + real i * real_of_int d) = real_of_int a + real i * real_of_int d"
      using si(1) r32_of_int [of "a + int i * d"] by simp
    show ?thesis
      using False by (simp add: arange_value_def Let_def v0 v1 delta ri prod sum)
  qed
qed

lemma np_arange_int:
  assumes "d \<noteq> 0" and "\<bar>a\<bar> < 2 ^ 23" and "\<bar>b\<bar> < 2 ^ 23"
  shows "np_arange (real_of_int a) (real_of_int b) (real_of_int d) =
         Inr (map (\<lambda>i. real_of_int a + real i * real_of_int d)
                [0..<nat \<lceil>real_of_int (b - a) / real_of_int d\<rceil>])"
proof -
  define n where "n = \<lceil>real_of_int (b - a) / real_of_int d\<rceil>"
  have len: "arange_length (real_of_int a) (real_of_int b) (real_of_int d) = n"
    unfolding n_def using assms by (rule arange_length_int)
  have "arange_value (real_of_int a) (real_of_int d) i = real_of_int a + real i * real_of_int d"
    if "i \<in> set [0..<nat n]" for i
  proof -
    have "int i < n"
      using that by simp
    then have "real i < real_of_int (b - a) / real_of_int d"
      unfolding n_def by (simp add: less_ceiling_iff)
    with assms(1) show ?thesis
      using assms(2,3) by (rule arange_value_int)
  qed
  then have same: "map (arange_value (real_of_int a) (real_of_int d)) [0..<nat n] =
             map (\<lambda>i. real_of_int a + real i * real_of_int d) [0..<nat n]"
    by (intro map_cong) simp_all
  have "np_arange (real_of_int a) (real_of_int b) (real_of_int d) =
        (if n \<le> 0 then Inr []
         else Inr (map (arange_value (real_of_int a) (real_of_int d)) [0..<nat n]))"
    using assms(1) by (simp add: np_arange_def len)
  also have "\<dots> = Inr (map (arange_value (real_of_int a) (real_of_int d)) [0..<nat n])"
    by simp
  also have "\<dots> = Inr (map (\<lambda>i. real_of_int a + real i * real_of_int d) [0..<nat n])"
    by (simp only: same)
  finally show ?thesis
    unfolding n_def .
qed

lemma np_arange_example: "np_arange 0 10 3 = Inr [0, 3, 6, 9]"
  using np_arange_int [of 3 0 10] by (simp add: upt_rec)

lemma np_arange_example2: "np_arange 10 0 (- 3) = Inr [10, 7, 4, 1]"
  using np_arange_int [of "- 3" 10 0] by (simp add: upt_rec)

lemma np_arange_total: "d \<noteq> 0 \<Longrightarrow> \<exists>xs. np_arange a b d = Inr xs"
  by (simp add: np_arange_def)

text \<open>Above \<open>2 ^ 24\<close> the narrowing to \<^verbatim>\<open>float32\<close> shows: the second value is rounded back
  onto the first, the difference of the two is zero, and the array is constant.\<close>

lemma np_arange_narrowed:
  "np_arange 16777216 16777220 1 = Inr [16777216, 16777216, 16777216, 16777216]"
proof -
  have "r64 (real_of_int 4) = real_of_int 4"
    by (rule r64_of_int) simp
  then have len: "arange_length 16777216 16777220 1 = 4"
    by (simp add: arange_length_def)
  have "r64 (real_of_int 16777216) = real_of_int 16777216"
    by (rule r64_of_int) simp
  then have v0: "r32 (r64 16777216) = 16777216"
    by (simp add: r32_two_to_24)
  have "r64 (real_of_int 16777217) = real_of_int 16777217"
    by (rule r64_of_int) simp
  then have v1: "r32 (r64 16777217) = 16777216"
    by (simp add: r32_tie)
  have zero: "r32 0 = 0"
    by (simp add: r32_def round_to_0)
  have "arange_value 16777216 1 i = 16777216" for i
    by (simp add: arange_value_def Let_def v0 v1 zero r32_two_to_24)
  then show ?thesis
    by (simp add: np_arange_def len upt_rec)
qed

lemmas step_defs = init_state_def generate_steps_def Let_def log_to_def


text \<open>It also fails where \<^verbatim>\<open>float32\<close> cannot tell the terms apart: from \<open>2 ^ 24\<close> in
  steps of 1 the four values are all \<open>2 ^ 24\<close>.\<close>

lemma generate_steps_narrowed:
  "generate_steps (fresh\<lparr>step := (step fresh)
       \<lparr>st_start := Some 16777216, st_stop := Some 16777220, st_step_size := Some 1\<rparr>\<rparr>) =
   Inr (fresh\<lparr>step := (step fresh)
       \<lparr>st_start := Some 16777216, st_stop := Some 16777220, st_step_size := Some 1,
        st_values := Some [16777216, 16777216, 16777216, 16777216]\<rparr>, dim := Some 2\<rparr>)"
  by (simp add: step_defs np_arange_narrowed)






subsection \<open>Sweep values\<close>






lemmas sweep_defs = init_state_def generate_sweep_def np_linspace_def linspace_value_def
  py_round_def sample_rate_def Let_def upt_rec log_to_def


text \<open>A second way to miss the stop value: a sample count of one gives the start value
  alone.\<close>

lemma generate_sweep_single:
  "generate_sweep (fresh\<lparr>sweep := (sweep fresh)
        \<lparr>sw_start := Some 0, sw_stop := Some 1, sw_rate := Some 1\<rparr>,
      lockin := [(''sample_rate'', Some 1)]\<rparr>) =
   Inr (fresh\<lparr>sweep := (sweep fresh)
        \<lparr>sw_start := Some 0, sw_stop := Some 1, sw_rate := Some 1,
         sw_duration := Some 1, sw_values := Some [0]\<rparr>,
      lockin := [(''sample_rate'', Some 1)]\<rparr>)"
  by (simp add: sweep_defs float_simps)



text \<open>The number of samples follows the rounding of the quotient: 0.35 and 0.1 are the
  floats \<open>3152519739159347 / 2 ^ 53\<close> and \<open>3602879701896397 / 2 ^ 55\<close>, and their float64
  quotient lies just below 3.5.\<close>

lemma sample_count_rounded:
  "py_round (r64 (r64 (r64 (3152519739159347 / 2 ^ 53 - 0) / (3602879701896397 / 2 ^ 55)) * 1)) = 3"
proof -
  have b: "r64 (3152519739159347 / 2 ^ 53) = 3152519739159347 / 2 ^ 53"
    unfolding r64_def
    by (subst round_to_exponent [where e = "- 2"])
      (simp_all add: powr_minus py_round_def Let_def)
  have q: "r64 (3152519739159347 / 2 ^ 53 / (3602879701896397 / 2 ^ 55)) =
           7881299347898367 / 2 ^ 51"
    unfolding r64_def
    by (subst round_to_exponent [where e = 1])
      (simp_all add: powr_minus py_round_def Let_def)
  have d: "r64 (7881299347898367 / 2 ^ 51) = 7881299347898367 / 2 ^ 51"
    unfolding r64_def
    by (subst round_to_exponent [where e = 1])
      (simp_all add: powr_minus py_round_def Let_def)
  have r: "py_round (7881299347898367 / 2 ^ 51) = 3"
    by (simp add: py_round_def Let_def)
  show ?thesis
    by (simp only: diff_zero mult_1_right b q d r)
qed

text \<open>So the sweep from 0 to 0.35 at the rate 0.1 with one sample a second has three
  values, where the quotient of the decimal numbers, 3.5, would round to four.\<close>

lemma generate_sweep_rounded_count:
  "map_sum id (\<lambda>s. map_option length (sw_values (sweep s)))
     (generate_sweep (fresh\<lparr>sweep := (sweep fresh)
        \<lparr>sw_start := Some 0, sw_stop := Some (3152519739159347 / 2 ^ 53),
         sw_rate := Some (3602879701896397 / 2 ^ 55)\<rparr>,
      lockin := [(''sample_rate'', Some 1)]\<rparr>)) = Inr (Some 3)"
  using sample_count_rounded
  by (simp add: init_state_def generate_sweep_def sample_rate_def np_linspace_def Let_def)

subsection \<open>Ramp durations\<close>

lemma Max_insert_max:
  assumes "finite S"
  shows "Max (insert (max m d) S) = Max (insert m (insert d S))"
proof (cases "S = {}")
  case True
  then show ?thesis by (simp add: max.commute)
next
  case False
  then show ?thesis using assms by (simp add: max.assoc)
qed

text \<open>The loop computes the maximum of its start value and the durations of the
  channels, provided every channel of the target is known on both sides and no rate is
  zero.\<close>

lemma min_duration_loop_max:
  assumes "\<forall>kv \<in> set target. \<exists>t r. map_of source (fst kv) = Some t \<and>
             map_of max_rate (fst kv) = Some r \<and> r \<noteq> 0"
  shows "min_duration_loop source max_rate target m =
         Inr (Max (insert m (set (map (channel_duration source max_rate) target))))"
  using assms
proof (induction target arbitrary: m)
  case Nil
  then show ?case by simp
next
  case (Cons kv target)
  obtain key val where kv: "kv = (key, val)" by (cases kv)
  obtain t r where tr: "map_of source key = Some t" "map_of max_rate key = Some r" "r \<noteq> 0"
    using Cons.prems kv by auto
  have d: "channel_duration source max_rate kv = \<bar>val - t\<bar> / r"
    using tr kv by (simp add: channel_duration_def)
  have "min_duration_loop source max_rate (kv # target) m =
        min_duration_loop source max_rate target (max m (\<bar>val - t\<bar> / r))"
    using tr kv by (simp add: Let_def max_def)
  also have "\<dots> = Inr (Max (insert (max m (\<bar>val - t\<bar> / r))
                       (set (map (channel_duration source max_rate) target))))"
    using Cons.prems by (intro Cons.IH) simp
  also have "\<dots> =
      Inr (Max (insert m (set (map (channel_duration source max_rate) (kv # target)))))"
    by (simp add: Max_insert_max d)
  finally show ?case .
qed

text \<open>With positive rates no duration is negative, so the start value 0 of the loop
  does not show in the maximum.\<close>

lemma compute_duration_nonneg:
  assumes "target \<noteq> []"
    and "\<forall>kv \<in> set target. \<exists>t r. map_of source (fst kv) = Some t \<and>
             map_of max_rate (fst kv) = Some r \<and> 0 < r"
  shows "Max (insert 0 (set (map (channel_duration source max_rate) target))) =
         compute_duration source target max_rate"
proof -
  let ?S = "set (map (channel_duration source max_rate) target)"
  have ne: "?S \<noteq> {}" using assms(1) by simp
  have "\<forall>x \<in> ?S. 0 \<le> x"
    using assms(2) by (fastforce simp add: channel_duration_def)
  then have "0 \<le> Max ?S"
    using ne by (meson List.finite_set Max_in)
  then show ?thesis
    using ne by (simp add: compute_duration_def)
qed

text \<open>Without a step variable \<^verbatim>\<open>wp_setter\<close> raises before it computes anything.\<close>

lemma wp_setter_without_step_var:
  "st_var_name (step s) = None \<Longrightarrow> wp_setter s w x dt = (Inl TypeError, [], [])"
  by (simp add: wp_setter_def)

text \<open>With a step variable, every channel of the target known in the source and a
  positive maximum rate for each, the minimum duration of \<^verbatim>\<open>wp_setter\<close> is the maximum
  over the channels of \<open>|target - source| / max_rate\<close>. Without a duration from the caller
  the ramp is sent with this minimum; with a duration below the minimum a warning is
  logged and the ramp is sent with the minimum; any other duration is sent as given.\<close>

lemma wp_setter_duration:
  assumes "st_var_name (step s) = Some var"
    and "source = (if data_retrace (data s) then start_outs w else stop_outs w)"
    and "new_start_outs w \<noteq> []"
    and "\<forall>kv \<in> set (new_start_outs w). \<exists>t r. map_of source (fst kv) = Some t \<and>
           map_of (max_rate_config s) (fst kv) = Some r \<and> 0 < r"
  shows "wp_setter s w x None =
           (Inr (), [],
            [Sweep (new_start_outs w)
               (compute_duration source (new_start_outs w) (max_rate_config s))]) \<and>
         (\<forall>d. wp_setter s w x (Some d) =
            (if d < compute_duration source (new_start_outs w) (max_rate_config s)
             then (Inr (),
                   [(WARNING, Ramp_not_safe d
                       (compute_duration source (new_start_outs w) (max_rate_config s)))],
                   [Sweep (new_start_outs w)
                      (compute_duration source (new_start_outs w) (max_rate_config s))])
             else (Inr (), [], [Sweep (new_start_outs w) d])))"
proof -
  have src: "temp_wp_outs s w = source"
    using assms(2) by (simp add: temp_wp_outs_def)
  have "\<forall>kv \<in> set (new_start_outs w). \<exists>t r. map_of source (fst kv) = Some t \<and>
           map_of (max_rate_config s) (fst kv) = Some r \<and> r \<noteq> 0"
    using assms(4) by fastforce
  then have loop:
    "min_duration_loop source (max_rate_config s) (new_start_outs w) 0 =
       Inr (Max (insert 0 (set (map (channel_duration source (max_rate_config s))
                                  (new_start_outs w)))))"
    by (rule min_duration_loop_max)
  have "Max (insert 0 (set (map (channel_duration source (max_rate_config s))
                              (new_start_outs w)))) =
        compute_duration source (new_start_outs w) (max_rate_config s)"
    using assms(3,4) by (rule compute_duration_nonneg)
  then have "min_duration_loop source (max_rate_config s) (new_start_outs w) 0 =
        Inr (compute_duration source (new_start_outs w) (max_rate_config s))"
    using loop by (simp only:)
  then show ?thesis
    using assms(1) by (simp add: wp_setter_def ramp_to_wp_def src)
qed

text \<open>The source of the distance is the stop point, and the start point when a retrace
  is measured.\<close>

lemma wp_setter_example:
  "wp_setter (fresh\<lparr>step := (step fresh)\<lparr>st_var_name := Some ''vg''\<rparr>\<rparr>)
     \<lparr>start_outs = [(''vg'', 1/10)], stop_outs = [(''vg'', 0)],
      new_start_outs = [(''vg'', 1/2)]\<rparr> (VFloat (1/2)) None =
   (Inr (), [], [Sweep [(''vg'', 1/2)] 5]) \<and>
   wp_setter (fresh\<lparr>step := (step fresh)\<lparr>st_var_name := Some ''vg''\<rparr>,
                     data := (data fresh)\<lparr>data_retrace := True\<rparr>\<rparr>)
     \<lparr>start_outs = [(''vg'', 1/10)], stop_outs = [(''vg'', 0)],
      new_start_outs = [(''vg'', 1/2)]\<rparr> (VFloat (1/2)) (Some 2) =
   (Inr (), [(WARNING, Ramp_not_safe 2 4)], [Sweep [(''vg'', 1/2)] 4])"
  by (simp add: wp_setter_def temp_wp_outs_def ramp_to_wp_def init_state_def
      init_max_rate_config_def)

text \<open>\<^verbatim>\<open>start_sweep\<close> computes its duration with the same loop and logs it. Then it
  fails in the call of \<^verbatim>\<open>ramp_to_wp\<close>: it never returns normally and never sends a
  ramp.\<close>

lemma start_sweep_never_ramps:
  "fst (start_sweep s outs_start wp_outs) \<noteq> Inr () \<and>
   snd (snd (start_sweep s outs_start wp_outs)) = []"
  by (simp add: start_sweep_def split: sum.splits)

text \<open>
  Claim C3: every ramp between two working points is sent with the resolved duration,
  the maximum over the channels of \<open>|target - source| / max_rate\<close> when the caller gives
  none. \<^verbatim>\<open>start_sweep\<close> is the ramp to the first working point. With the output
  \<^verbatim>\<open>vg\<close> on channel 1, the instrument at 0 and the start point at 0.5, it computes
  0.5 / 0.1 = 5 and logs it, and then raises TypeError: the ramp is never sent.
\<close>

theorem start_sweep_raises:
  "start_sweep
     (init_state (VDict [(''outputs'', VDict [(''vg'', VDict [(''channel'', VInt 1)])])])
        (VDict []))
     [0] [(''vg'', 1/2)] =
   (Inl TypeError, [(INFO, Sweeping_to_start 5)], [])"
  by (simp add: start_sweep_def channel_index_def index_def init_state_def
      init_max_rate_config_def)

subsection \<open>The measurement\<close>

lemmas measure_defs = init_state_def sweep_measure_def input_entry_def calc_entry_def
  save_entry_def save_item_def get_array_def difference_of_def empty_selection_def
  valid_inputs_def valid_calc_def py_int_def slice_upto_def np_binop_def Let_def

text \<open>A selected \<^verbatim>\<open>amp\<close> or \<^verbatim>\<open>phase\<close> always ends the measurement in an exception.\<close>

lemma calc_entry_raises:
  "snd kv \<noteq> [] \<Longrightarrow> fst kv \<in> set valid_calc \<Longrightarrow> \<exists>e. calc_entry vd kv = Inl e"
  by (simp add: calc_entry_def Let_def split: sum.splits)

text \<open>
  Claim C1, as stated, fails: with the difference of the in-phase signal requested and
  the retrace flag \<^verbatim>\<open>False\<close>, \<^verbatim>\<open>sweep_measure\<close> sends the ramp-and-sample command to the
  instrument and then returns an empty dictionary; nothing is raised.
\<close>

theorem sweep_measure_difference_without_retrace:
  "data_retrace (data fresh) = False \<and>
   sweep_measure
     (fresh\<lparr>data := (data fresh)\<lparr>data_temp_save :=
          [(''inph'', [VStr ''difference'']), (''quad'', []), (''raw'', []), (''amp'', []),
           (''phase'', [])]\<rparr>\<rparr>)
     [(''vg'', 0)] [(''vg'', 1)]
     \<lparr>trace_reply = [(''inph'', [1, 2])], retrace_reply = [], fpar26 = 2, fpar21 = 1\<rparr> =
   (Inr [], [Sweep_measure [(''vg'', 1)] None])"
  by (simp add: measure_defs)

text \<open>When the difference is also to be saved, the lookup of the missing array raises
  KeyError, again after the command has been sent.\<close>

lemma sweep_measure_difference_saved_without_retrace:
  "sweep_measure
     (fresh\<lparr>data := (data fresh)\<lparr>data_temp_save :=
          [(''inph'', [VStr ''difference'']), (''quad'', []), (''raw'', []), (''amp'', []),
           (''phase'', [])],
         data_save :=
          [(''inph'', [VStr ''difference'']), (''quad'', []), (''raw'', []), (''amp'', []),
           (''phase'', [])]\<rparr>\<rparr>)
     [(''vg'', 0)] [(''vg'', 1)]
     \<lparr>trace_reply = [(''inph'', [1, 2])], retrace_reply = [], fpar26 = 2, fpar21 = 1\<rparr> =
   (Inl KeyError, [Sweep_measure [(''vg'', 1)] None])"
  by (simp add: measure_defs)

text \<open>
  Claim C1, amended. Whatever is requested, \<^verbatim>\<open>sweep_measure\<close> first sends the
  ramp-and-sample command to the stop point with the sweep duration, and then, if the
  retrace flag is set, the one back to the start point. Which quantities are requested is
  looked at only afterwards, so whatever \<^verbatim>\<open>sweep_measure\<close> raises, it raises after the
  first command.
\<close>

theorem sweep_measure_commands:
  "snd (sweep_measure s wp_start_outs wp_stop_outs anna) =
     Sweep_measure wp_stop_outs (sw_duration (sweep s)) #
     (if data_retrace (data s) then [Sweep_measure wp_start_outs (sw_duration (sweep s))]
      else [])"
  by (simp add: sweep_measure_def Let_def)

text \<open>
  Claim C5: trace, retrace and difference of the in-phase signal are requested, the
  retrace flag is set, and the instrument returns the trace \<open>[1, 2]\<close> and a retrace that
  reads \<open>[4, 6]\<close> once reversed. The difference should be \<open>[3, 4]\<close>. The source asks for
  the truth value of the two arrays before it subtracts them, and for an array of two
  samples that raises ValueError: no difference is produced.
\<close>

theorem sweep_measure_difference_ambiguous:
  "sweep_measure
     (fresh\<lparr>data := (data fresh)\<lparr>data_retrace := True, data_temp_save :=
          [(''inph'', [VStr ''trace'', VStr ''retrace'', VStr ''difference'']), (''quad'', []),
           (''raw'', []), (''amp'', []), (''phase'', [])],
         data_save :=
          [(''inph'', [VStr ''difference'']), (''quad'', []), (''raw'', []), (''amp'', []),
           (''phase'', [])]\<rparr>\<rparr>)
     [(''vg'', 0)] [(''vg'', 1)]
     \<lparr>trace_reply = [(''inph'', [1, 2])], retrace_reply = [(''inph'', [6, 4])],
      fpar26 = 2, fpar21 = 1\<rparr> =
   (Inl ValueError, [Sweep_measure [(''vg'', 1)] None, Sweep_measure [(''vg'', 0)] None])"
  by (simp add: measure_defs)

text \<open>With one sample per buffer the truth values exist, and the subtraction the
  source means to make is made: retrace minus trace.\<close>

lemma sweep_measure_difference_single_sample:
  "sweep_measure
     (fresh\<lparr>data := (data fresh)\<lparr>data_retrace := True, data_temp_save :=
          [(''inph'', [VStr ''trace'', VStr ''retrace'', VStr ''difference'']), (''quad'', []),
           (''raw'', []), (''amp'', []), (''phase'', [])],
         data_save :=
          [(''inph'', [VStr ''difference'']), (''quad'', []), (''raw'', []), (''amp'', []),
           (''phase'', [])]\<rparr>\<rparr>)
     [(''vg'', 0)] [(''vg'', 1)]
     \<lparr>trace_reply = [(''inph'', [1, 2])], retrace_reply = [(''inph'', [4, 6])],
      fpar26 = 1, fpar21 = 1\<rparr> =
   (Inr [(''inph_difference'', [3])],
    [Sweep_measure [(''vg'', 1)] None, Sweep_measure [(''vg'', 0)] None])"
  by (simp add: measure_defs)

end
